theory Spec2Isabelle
  imports Main "HOL-Library.Word"
begin

unbundle bit_operations_syntax

section \<open>MPIPE over I2C on the CC430: data model\<close>

text \<open>
  The development embeds \<^verbatim>\<open>otplatform/cc430/mpipe_CC430_i2c.c\<close>. The file is compiled
  with \<^verbatim>\<open>OT_FEATURE(MPIPE_CALLBACKS)\<close> and \<^verbatim>\<open>MCU_FEATURE(MPIPEDMA)\<close> enabled and
  \<^verbatim>\<open>PLATFORM_FEATURE_USBCONVERTER\<close> disabled: this is the configuration in which the
  acknowledgment buffer, the priority field and the three signal pointers exist.

  \<^item> \<^verbatim>\<open>ot_u8\<close> is an 8-bit word, \<^verbatim>\<open>ot_u16\<close> a 16-bit word. \<^verbatim>\<open>ot_int\<close> is a signed 16-bit
    integer and the DMA size register has 16 bits: lengths are integers, and where a
    stored value can leave the 16-bit range (the accumulation of \<^verbatim>\<open>mpipe.pktlen\<close> and the
    write to \<^verbatim>\<open>MPIPE_DMA->SZ\<close>) the reduction to 16 bits is written out.
  \<^item> Buffers are addressed through pointers (\<^verbatim>\<open>ot_u8*\<close>) and may overlap, so bytes live in
    one store, a function from addresses to bytes. Addresses are integers and pointer
    arithmetic is addition.
\<close>

type_synonym ot_u8 = "8 word"
type_synonym ot_u16 = "16 word"
type_synonym addr = int
type_synonym store = "addr \<Rightarrow> ot_u8"

text \<open>
  Modelled from the spec: the enumeration \<^verbatim>\<open>mpipe_state\<close> is declared in \<^verbatim>\<open>mpipe.h\<close>,
  which is not part of the sources. The constructors are the eight states the source
  file names, in the order the spec lists them (section 4.2).
\<close>

datatype mpipe_state =
    MPIPE_Idle
  | MPIPE_RxHeader
  | MPIPE_RxPayload
  | MPIPE_TxAck_Wait
  | MPIPE_TxAck_Done
  | MPIPE_Tx_Wait
  | MPIPE_Tx_Done
  | MPIPE_RxAck

text \<open>
  Modelled from the spec: the enumeration \<^verbatim>\<open>mpipe_priority\<close> is declared in \<^verbatim>\<open>mpipe.h\<close> as
  well. The source file names \<^verbatim>\<open>MPIPE_Low\<close>, \<^verbatim>\<open>MPIPE_Broadcast\<close> and \<^verbatim>\<open>MPIPE_Ack\<close>;
  \<open>MPIPE_High\<close> stands for any further data kind: the code only ever compares a
  priority with \<^verbatim>\<open>MPIPE_Ack\<close> and \<^verbatim>\<open>MPIPE_Broadcast\<close>.
\<close>

datatype mpipe_priority = MPIPE_Low | MPIPE_High | MPIPE_Broadcast | MPIPE_Ack

text \<open>
  A signal is a function pointer \<^verbatim>\<open>void (*)(ot_int)\<close>: either the module's own empty
  function \<^verbatim>\<open>sub_signull\<close> or a function of the owner, identified by a number. What an
  owner function does is outside the module; the model records each call.
\<close>

datatype sig_handler = sub_signull | owner_fn nat

text \<open>
  Result of \<^verbatim>\<open>mpipe_txndef\<close> and \<^verbatim>\<open>mpipe_rxndef\<close>: \<open>Inl Busy\<close> is the C return value
  \<^verbatim>\<open>-1\<close>, \<open>Inr n\<close> the non-negative return value \<open>n\<close>.
\<close>

datatype mpipe_error = Busy

type_synonym mpipe_result = "mpipe_error + int"

text \<open>
  \<^verbatim>\<open>mpipe_struct\<close>. The array \<^verbatim>\<open>ackbuf[10]\<close> is part of the byte store; the field
  \<open>ackbuf\<close> is its address (what the expression \<^verbatim>\<open>mpipe.ackbuf\<close> denotes in C), and no
  operation assigns it.
\<close>

record mpipe_struct =
  ackbuf :: addr
  priority :: mpipe_priority
  state :: mpipe_state
  sequence :: ot_u16
  pktbuf :: addr
  pktlen :: int
  sig_rxdone :: sig_handler
  sig_txdone :: sig_handler
  sig_rxdetect :: sig_handler

text \<open>
  The machine: the global \<^verbatim>\<open>mpipe\<close>, the byte store, and the part of the peripherals
  that the protocol drives. Of the DMA channel: direction, memory address, size (the
  content of the 16-bit register, from 0 to 65535) and enable bit. Of the I2C unit: whether it is out of reset (\<^verbatim>\<open>UCSWRST\<close> clear) and whether
  the transmit interrupt \<^verbatim>\<open>UCTXIE\<close> is enabled. Clock, pin-mapping and trigger-select
  registers are constant configuration and are left out, and so are the interrupt flags. \<open>sig_log\<close> lists the
  signal calls made so far, oldest first.
\<close>

datatype dma_direction = DMA_Rx | DMA_Tx

record machine = mpipe_struct +
  mem :: store
  dma_dir :: dma_direction
  dma_addr :: addr
  dma_sz :: int
  dma_en :: bool
  i2c_open :: bool
  i2c_txie :: bool
  sig_log :: "(sig_handler \<times> int) list"

type_synonym crc_fn = "ot_u8 list \<Rightarrow> ot_u16"

section \<open>Bytes, blocks and the Twobytes union\<close>

text \<open>
  Modelled from the spec: the union \<^verbatim>\<open>Twobytes\<close> and the indices \<^verbatim>\<open>UPPER\<close> and \<^verbatim>\<open>LOWER\<close>
  are declared in a header that is not part of the sources. The union overlays an
  \<^verbatim>\<open>ot_u16\<close> (\<^verbatim>\<open>ushort\<close>) with two bytes (\<^verbatim>\<open>ubyte\<close>); \<^verbatim>\<open>ubyte[UPPER]\<close> is the most
  significant byte and \<^verbatim>\<open>ubyte[LOWER]\<close> the least significant one, so that the two
  sequence bytes of a frame are in the same order on both ends of the link.
\<close>

definition ubyte_UPPER :: "ot_u16 \<Rightarrow> ot_u8" where
  "ubyte_UPPER w = ucast (drop_bit 8 w)"

definition ubyte_LOWER :: "ot_u16 \<Rightarrow> ot_u8" where
  "ubyte_LOWER w = ucast w"

definition set_ubyte_UPPER :: "ot_u8 \<Rightarrow> ot_u16 \<Rightarrow> ot_u16" where
  "set_ubyte_UPPER b w = (w AND 0x00FF) OR push_bit 8 (ucast b)"

definition set_ubyte_LOWER :: "ot_u8 \<Rightarrow> ot_u16 \<Rightarrow> ot_u16" where
  "set_ubyte_LOWER b w = (w AND 0xFF00) OR ucast b"

text \<open>The two bytes \<open>hi\<close>, \<open>lo\<close> read as one 16-bit value.\<close>

definition twobytes :: "ot_u8 \<Rightarrow> ot_u8 \<Rightarrow> ot_u16" where
  "twobytes hi lo = push_bit 8 (ucast hi) OR ucast lo"

text \<open>\<open>block m p n\<close>: the \<open>n\<close> bytes at \<open>p\<close>, in order (the argument of a checksum).\<close>

definition block :: "store \<Rightarrow> addr \<Rightarrow> int \<Rightarrow> ot_u8 list" where
  "block m p n = map (\<lambda>i. m (p + int i)) [0..<nat n]"

definition poke :: "addr \<Rightarrow> ot_u8 \<Rightarrow> machine \<Rightarrow> machine" where
  "poke a v s = s\<lparr>mem := (mem s)(a := v)\<rparr>"

text \<open>\<open>store_block a bs m\<close>: the store \<open>m\<close> with the bytes \<open>bs\<close> written from \<open>a\<close> on.\<close>

definition store_block :: "addr \<Rightarrow> ot_u8 list \<Rightarrow> store \<Rightarrow> store" where
  "store_block a bs m =
     (\<lambda>x. if a \<le> x \<and> x < a + int (length bs) then bs ! nat (x - a) else m x)"

section \<open>Sixteen-bit values\<close>

text \<open>
  \<open>ot_int x\<close> is what a variable of type \<^verbatim>\<open>ot_int\<close> holds after \<open>x\<close> has been assigned to
  it: \<open>x\<close> reduced to 16 bits in two's complement. \<open>reg16 x\<close> is what a 16-bit register
  holds after \<open>x\<close> has been written to it: \<open>x\<close> modulo \<open>2^16\<close>.
\<close>

definition ot_int :: "int \<Rightarrow> int" where
  "ot_int x = (x + 32768) mod 65536 - 32768"

definition reg16 :: "int \<Rightarrow> int" where
  "reg16 x = x mod 65536"

section \<open>Peripheral macros\<close>

definition UART_CLOSE :: "machine \<Rightarrow> machine" where
  "UART_CLOSE s = s\<lparr>i2c_open := False\<rparr>"

definition UART_OPEN :: "machine \<Rightarrow> machine" where
  "UART_OPEN s = s\<lparr>i2c_open := True\<rparr>"

text \<open>
  Modelled from the spec: \<^verbatim>\<open>I2C_OPEN\<close> is used by \<^verbatim>\<open>mpipe_rxndef\<close> but defined nowhere in
  the sources; it is the transceiver's open operation, as \<^verbatim>\<open>UART_OPEN\<close>.
\<close>

definition I2C_OPEN :: "machine \<Rightarrow> machine" where
  "I2C_OPEN s = s\<lparr>i2c_open := True\<rparr>"

definition MPIPE_DMAEN_OFF :: "machine \<Rightarrow> machine" where
  "MPIPE_DMAEN_OFF s = s\<lparr>dma_en := False\<rparr>"

text \<open>
  The two DMA set-up macros: the size goes into the 16-bit register \<^verbatim>\<open>MPIPE_DMA->SZ\<close>.
\<close>

definition MPIPE_DMA_RXCONFIG :: "addr \<Rightarrow> int \<Rightarrow> machine \<Rightarrow> machine" where
  "MPIPE_DMA_RXCONFIG dest sz s =
     s\<lparr>dma_dir := DMA_Rx, dma_addr := dest, dma_sz := reg16 sz, dma_en := True\<rparr>"

definition MPIPE_DMA_TXCONFIG :: "addr \<Rightarrow> int \<Rightarrow> machine \<Rightarrow> machine" where
  "MPIPE_DMA_TXCONFIG source sz s =
     s\<lparr>dma_dir := DMA_Tx, dma_addr := source, dma_sz := reg16 sz, dma_en := True\<rparr>"

text \<open>Calling a signal pointer with an argument.\<close>

definition call_sig :: "sig_handler \<Rightarrow> int \<Rightarrow> machine \<Rightarrow> machine" where
  "call_sig h v s = s\<lparr>sig_log := sig_log s @ [(h, v)]\<rparr>"

section \<open>Public functions\<close>

text \<open>The three setters of the signal pointers.\<close>

definition mpipe_setsig_txdone :: "sig_handler \<Rightarrow> machine \<Rightarrow> machine" where
  "mpipe_setsig_txdone signal s = s\<lparr>sig_txdone := signal\<rparr>"

definition mpipe_setsig_rxdone :: "sig_handler \<Rightarrow> machine \<Rightarrow> machine" where
  "mpipe_setsig_rxdone signal s = s\<lparr>sig_rxdone := signal\<rparr>"

definition mpipe_setsig_rxdetect :: "sig_handler \<Rightarrow> machine \<Rightarrow> machine" where
  "mpipe_setsig_rxdetect signal s = s\<lparr>sig_rxdetect := signal\<rparr>"

text \<open>\<^verbatim>\<open>sub_uart_portsetup\<close>: pin mapping, and the I2C interrupts disabled.\<close>

definition sub_uart_portsetup :: "machine \<Rightarrow> machine" where
  "sub_uart_portsetup s = s\<lparr>i2c_txie := False\<rparr>"

text \<open>
  \<^verbatim>\<open>mpipe_init\<close>: the three signals, the priority and the state are assigned; the
  assignment to \<^verbatim>\<open>mpipe.sequence.ushort\<close> is commented out in the source
  (\<^verbatim>\<open>//not actually necessary\<close>). The write to \<^verbatim>\<open>CTL1\<close> sets \<^verbatim>\<open>UCSWRST\<close>: the I2C unit is
  left in reset.
\<close>

definition mpipe_init :: "machine \<Rightarrow> int \<times> machine" where
  "mpipe_init s =
     (let s1 = s\<lparr>sig_rxdone := sub_signull\<rparr>;
          s2 = s1\<lparr>sig_txdone := sub_signull\<rparr>;
          s3 = s2\<lparr>sig_rxdetect := sub_signull\<rparr>;
          s4 = s3\<lparr>priority := MPIPE_Low\<rparr>;
          s5 = s4\<lparr>state := MPIPE_Idle\<rparr>;
          s6 = sub_uart_portsetup s5;
          s7 = s6\<lparr>i2c_open := False\<rparr>
      in (0, s7))"

definition mpipe_status :: "machine \<Rightarrow> mpipe_state" where
  "mpipe_status s = state s"

definition mpipe_footerbytes :: int where
  "mpipe_footerbytes = 4"

text \<open>
  \<^verbatim>\<open>mpipe_txndef\<close> up to and excluding its last statement
  \<^verbatim>\<open>if (blocking == True) mpipe_wait();\<close>. The checksum \<^verbatim>\<open>platform_crc_block\<close> is a
  parameter.
\<close>

definition mpipe_txndef_arm ::
    "crc_fn \<Rightarrow> addr \<Rightarrow> mpipe_priority \<Rightarrow> machine \<Rightarrow> mpipe_result \<times> machine" where
  "mpipe_txndef_arm crc data data_priority s =
     (let data_length = uint (mem s (data + 2)) + 6 in
      if data_priority \<noteq> MPIPE_Ack \<and> state s \<noteq> MPIPE_Idle then (Inl Busy, s)
      else
        let s1 = (if data_priority \<noteq> MPIPE_Ack
                  then s\<lparr>priority := data_priority, pktbuf := data, pktlen := data_length\<rparr>
                  else s);
            s2 = s1\<lparr>state := MPIPE_Tx_Wait\<rparr>;
            s3 = MPIPE_DMAEN_OFF s2;
            s4 = poke (data + data_length) (ubyte_UPPER (sequence s3)) s3;
            s5 = poke (data + (data_length + 1)) (ubyte_LOWER (sequence s4)) s4;
            crcval = crc (block (mem s5) data (data_length + 2));
            s6 = poke (data + (data_length + 2)) (ubyte_UPPER crcval) s5;
            s7 = poke (data + (data_length + 3)) (ubyte_LOWER crcval) s6;
            s8 = MPIPE_DMA_TXCONFIG data (data_length + 4) s7;
            s9 = UART_OPEN s8
        in (Inr (data_length + 4), s9))"

text \<open>\<^verbatim>\<open>mpipe_rxndef\<close>; the parameter \<^verbatim>\<open>blocking\<close> is not used by the source.\<close>

definition mpipe_rxndef ::
    "addr \<Rightarrow> bool \<Rightarrow> mpipe_priority \<Rightarrow> machine \<Rightarrow> mpipe_result \<times> machine" where
  "mpipe_rxndef data blocking data_priority s =
     (let data_length = 10 in
      if data_priority \<noteq> MPIPE_Ack \<and> state s \<noteq> MPIPE_Idle then (Inl Busy, s)
      else
        let s1 = (if data_priority \<noteq> MPIPE_Ack
                  then s\<lparr>priority := data_priority, pktbuf := data, pktlen := 6\<rparr>
                  else s);
            s2 = s1\<lparr>state := MPIPE_Idle\<rparr>;
            s3 = MPIPE_DMAEN_OFF s2;
            s4 = MPIPE_DMA_RXCONFIG data data_length s3;
            s5 = I2C_OPEN s4
        in (Inr 0, s5))"

section \<open>The state machine\<close>

definition sub_rxdone :: "machine \<Rightarrow> machine" where
  "sub_rxdone s =
     (let s1 = UART_CLOSE s;
          s2 = s1\<lparr>state := MPIPE_Idle\<rparr>;
          s3 = s2\<lparr>priority := MPIPE_Low\<rparr>
      in call_sig (sig_rxdone s3) 0 s3)"

definition sub_txdone :: "machine \<Rightarrow> machine" where
  "sub_txdone s =
     (let s1 = UART_CLOSE s;
          s2 = s1\<lparr>sequence := sequence s1 + 1\<rparr>;
          s3 = s2\<lparr>state := MPIPE_Idle\<rparr>;
          s4 = s3\<lparr>priority := MPIPE_Low\<rparr>
      in call_sig (sig_txdone s4) 0 s4)"

text \<open>
  The body shared by \<^verbatim>\<open>case MPIPE_Idle\<close> (which falls through) and
  \<^verbatim>\<open>case MPIPE_RxHeader\<close>. The sum is stored in the 16-bit \<^verbatim>\<open>mpipe.pktlen\<close>, and the
  difference \<^verbatim>\<open>mpipe.pktlen-6\<close> in the 16-bit size register.
\<close>

definition isr_rxheader :: "machine \<Rightarrow> machine" where
  "isr_rxheader s =
     (let s1 = s\<lparr>state := MPIPE_RxPayload\<rparr>;
          s2 = s1\<lparr>pktlen :=
                  ot_int (pktlen s1 + (uint (mem s1 (pktbuf s1 + 2)) + mpipe_footerbytes))\<rparr>
      in MPIPE_DMA_RXCONFIG (pktbuf s2 + 6) (pktlen s2 - 6) s2)"

definition isr_rxpayload :: "crc_fn \<Rightarrow> machine \<Rightarrow> machine" where
  "isr_rxpayload crc s =
     (if priority s \<noteq> MPIPE_Broadcast then
        let seq_val = pktbuf s + (pktlen s - mpipe_footerbytes);
            s1 = s\<lparr>sequence := set_ubyte_UPPER (mem s seq_val) (sequence s)\<rparr>;
            s2 = s1\<lparr>sequence := set_ubyte_LOWER (mem s1 (seq_val + 1)) (sequence s1)\<rparr>;
            s3 = poke (ackbuf s2 + 0) 0xDD s2;
            s4 = poke (ackbuf s3 + 1) 0 s3;
            s5 = poke (ackbuf s4 + 2) 0 s4;
            s6 = poke (ackbuf s5 + 3) 2 s5;
            s7 = poke (ackbuf s6 + 4) 0 s6;
            s8 = poke (ackbuf s7 + 5)
                   (if crc (block (mem s7) (pktbuf s7) (pktlen s7)) \<noteq> 0 then 0x7F else 0) s7;
            s9 = snd (mpipe_txndef_arm crc (ackbuf s8) MPIPE_Ack s8)
        in s9\<lparr>state := MPIPE_TxAck_Wait\<rparr>
      else sub_rxdone s)"

definition isr_txack_done :: "machine \<Rightarrow> machine" where
  "isr_txack_done s =
     (let s1 = s\<lparr>i2c_txie := False\<rparr> in
      if mem s1 (ackbuf s1 + 5) \<noteq> 0 then
        let s2 = snd (mpipe_rxndef (pktbuf s1) False (priority s1) s1)
        in s2\<lparr>state := MPIPE_RxHeader\<rparr>
      else sub_rxdone s1)"

definition isr_tx_done :: "machine \<Rightarrow> machine" where
  "isr_tx_done s =
     (let s1 = s\<lparr>i2c_txie := False\<rparr> in
      if priority s1 \<noteq> MPIPE_Broadcast then
        let s2 = snd (mpipe_rxndef (ackbuf s1) False MPIPE_Ack s1)
        in s2\<lparr>state := MPIPE_RxAck\<rparr>
      else sub_txdone s1)"

definition isr_rxack :: "crc_fn \<Rightarrow> machine \<Rightarrow> machine" where
  "isr_rxack crc s =
     (if crc (block (mem s) (ackbuf s) 10) \<noteq> 0
      then snd (mpipe_txndef_arm crc (pktbuf s) (priority s) s)
      else sub_txdone s)"

text \<open>
  \<^verbatim>\<open>mpipe_isr\<close>: the switch on the state, with the body of each \<^verbatim>\<open>case\<close> as defined
  before. The calls of \<^verbatim>\<open>mpipe_txndef\<close> inside pass \<^verbatim>\<open>False\<close> for \<^verbatim>\<open>blocking\<close>, so they are
  calls of \<open>mpipe_txndef_arm\<close>.
\<close>

definition mpipe_isr :: "crc_fn \<Rightarrow> machine \<Rightarrow> machine" where
  "mpipe_isr crc s =
     (case state s of
        MPIPE_Idle \<Rightarrow> isr_rxheader (call_sig (sig_rxdetect s) 0 s)
      | MPIPE_RxHeader \<Rightarrow> isr_rxheader s
      | MPIPE_RxPayload \<Rightarrow> isr_rxpayload crc s
      | MPIPE_TxAck_Wait \<Rightarrow> s\<lparr>i2c_txie := True\<rparr>
      | MPIPE_TxAck_Done \<Rightarrow> isr_txack_done s
      | MPIPE_Tx_Wait \<Rightarrow> s\<lparr>i2c_txie := True\<rparr>
      | MPIPE_Tx_Done \<Rightarrow> isr_tx_done s
      | MPIPE_RxAck \<Rightarrow> isr_rxack crc s)"

text \<open>\<^verbatim>\<open>mpipe.state++\<close> on the two states where \<^verbatim>\<open>mpipe_uart_isr\<close> applies it.\<close>

definition state_incr :: "mpipe_state \<Rightarrow> mpipe_state" where
  "state_incr st =
     (case st of MPIPE_Tx_Wait \<Rightarrow> MPIPE_Tx_Done | MPIPE_TxAck_Wait \<Rightarrow> MPIPE_TxAck_Done
      | _ \<Rightarrow> st)"

definition mpipe_uart_isr :: "crc_fn \<Rightarrow> machine \<Rightarrow> machine" where
  "mpipe_uart_isr crc s =
     (if state s = MPIPE_Tx_Wait \<or> state s = MPIPE_TxAck_Wait
      then s\<lparr>state := state_incr (state s)\<rparr>
      else mpipe_isr crc s)"

text \<open>\<^verbatim>\<open>mpipe_dma_isr\<close>, entered for the interrupt of the channel MPIPE uses.\<close>

definition mpipe_dma_isr :: "crc_fn \<Rightarrow> machine \<Rightarrow> machine" where
  "mpipe_dma_isr crc s = mpipe_isr crc s"

section \<open>Interrupts and the blocking wait\<close>

text \<open>
  Modelled from the spec: the bulk-transfer collaborator. When the channel finishes a
  single transfer it clears its enable bit; a receive has then stored the bytes that
  arrived, at most \<open>dma_sz\<close> of them, from \<open>dma_addr\<close> on.
\<close>

definition dma_complete :: "ot_u8 list \<Rightarrow> machine \<Rightarrow> machine" where
  "dma_complete wire s =
     (let s1 = (if dma_en s \<and> dma_dir s = DMA_Rx
                then s\<lparr>mem := store_block (dma_addr s) (take (nat (dma_sz s)) wire) (mem s)\<rparr>
                else s)
      in s1\<lparr>dma_en := False\<rparr>)"

datatype irq = DMA_IRQ "ot_u8 list" | I2C_IRQ

definition irq_step :: "crc_fn \<Rightarrow> irq \<Rightarrow> machine \<Rightarrow> machine" where
  "irq_step crc e s =
     (case e of
        DMA_IRQ wire \<Rightarrow> mpipe_dma_isr crc (dma_complete wire s)
      | I2C_IRQ \<Rightarrow> mpipe_uart_isr crc s)"

text \<open>
  \<^verbatim>\<open>mpipe_wait\<close>: the loop sleeps until an interrupt has been served and tests the state
  again. The interrupts that arrive while it runs are the list \<open>evs\<close>; when they are
  used up and the state is still not idle the loop sleeps for ever, which is \<open>None\<close>.
  The result is the machine and the interrupts not yet served.
\<close>

fun mpipe_wait :: "crc_fn \<Rightarrow> irq list \<Rightarrow> machine \<Rightarrow> (machine \<times> irq list) option" where
  "mpipe_wait crc [] s = (if state s \<noteq> MPIPE_Idle then None else Some (s, []))"
| "mpipe_wait crc (e # evs) s =
     (if state s \<noteq> MPIPE_Idle then mpipe_wait crc evs (irq_step crc e s)
      else Some (s, e # evs))"

text \<open>\<^verbatim>\<open>mpipe_txndef\<close>, whole: \<open>None\<close> when the blocking wait never ends.\<close>

definition mpipe_txndef ::
    "crc_fn \<Rightarrow> irq list \<Rightarrow> addr \<Rightarrow> bool \<Rightarrow> mpipe_priority \<Rightarrow> machine
      \<Rightarrow> (mpipe_result \<times> machine) option" where
  "mpipe_txndef crc evs data blocking data_priority s =
     (case mpipe_txndef_arm crc data data_priority s of
        (Inl e, s') \<Rightarrow> Some (Inl e, s')
      | (Inr n, s') \<Rightarrow>
          if blocking then map_option (\<lambda>(s'', _). (Inr n, s'')) (mpipe_wait crc evs s')
          else Some (Inr n, s'))"

section \<open>The footer as the specification words it\<close>

text \<open>
  The specification's \<^verbatim>\<open>append_footer\<close>: the sequence, then the checksum of
  header, payload and sequence. \<open>body\<close> is header and payload.
\<close>

definition spec_footer :: "crc_fn \<Rightarrow> ot_u8 list \<Rightarrow> ot_u16 \<Rightarrow> ot_u8 list" where
  "spec_footer crc body sq =
     (let sqb = [ubyte_UPPER sq, ubyte_LOWER sq];
          c = crc (body @ sqb)
      in sqb @ [ubyte_UPPER c, ubyte_LOWER c])"

text \<open>
  The value that \<^verbatim>\<open>mpipe_isr\<close> assigns to \<^verbatim>\<open>ackbuf[5]\<close> in \<^verbatim>\<open>case MPIPE_RxPayload\<close>: the
  checksum is taken over the pending frame as the store holds it at that point, after
  \<^verbatim>\<open>ackbuf[0]\<close> to \<^verbatim>\<open>ackbuf[4]\<close> have been written.
\<close>

definition ack_status :: "crc_fn \<Rightarrow> machine \<Rightarrow> ot_u8" where
  "ack_status crc s =
     (if crc (block (store_block (ackbuf s) [0xDD, 0, 0, 2, 0] (mem s)) (pktbuf s) (pktlen s))
           \<noteq> 0
      then 0x7F else 0)"

text \<open>Serving a list of interrupts in order.\<close>

definition run :: "crc_fn \<Rightarrow> irq list \<Rightarrow> machine \<Rightarrow> machine" where
  "run crc evs s = fold (irq_step crc) evs s"

section \<open>Worked inputs\<close>

text \<open>
  Concrete inputs for the examples below. \<open>parity_crc\<close>, the exclusive-or of all
  bytes, stands in for \<^verbatim>\<open>platform_crc_block\<close> there: a block followed by its own check
  value checks to zero. Every general theorem holds for any checksum function.
  \<open>boot_machine\<close> is a machine after \<^verbatim>\<open>mpipe_init\<close> with a cleared store and the
  acknowledgment buffer at address \<open>0x1C00\<close>; \<open>frame_AB\<close> is the header and payload of
  a frame carrying the two bytes \<^verbatim>\<open>AB\<close>, placed at address \<open>0x200\<close> in \<open>machine_AB\<close>.
\<close>

definition parity_crc :: crc_fn where
  "parity_crc bs = ucast (fold (\<lambda>b acc. acc XOR b) bs (0 :: ot_u8))"

definition boot_machine :: machine where
  "boot_machine =
     \<lparr>ackbuf = 0x1C00, priority = MPIPE_Low, state = MPIPE_Idle, sequence = 0,
      pktbuf = 0, pktlen = 0,
      sig_rxdone = sub_signull, sig_txdone = sub_signull, sig_rxdetect = sub_signull,
      mem = (\<lambda>_. 0), dma_dir = DMA_Rx, dma_addr = 0, dma_sz = 0, dma_en = False,
      i2c_open = False, i2c_txie = False, sig_log = []\<rparr>"

definition frame_AB :: "ot_u8 list" where
  "frame_AB = [0xDD, 0, 2, 2, 0, 0, 0x41, 0x42]"

definition machine_AB :: machine where
  "machine_AB = boot_machine\<lparr>mem := store_block 0x200 frame_AB (mem boot_machine)\<rparr>"

text \<open>
  A sender. \<open>tx_sent\<close>: the frame of \<open>machine_AB\<close> has been sent with priority
  \<^verbatim>\<open>MPIPE_Low\<close>, the DMA and the two I2C interrupts of the transmission have been served,
  and the machine waits for the acknowledgment. \<open>valid_ack\<close> is an acknowledgment whose
  check value is right, \<open>corrupt_ack\<close> the same with one bit flipped.
  \<open>tx_ack_arrived\<close>: the valid acknowledgment is in the buffer and its interrupt is
  pending; \<open>tx_completed\<close>: that interrupt has been served.
  \<open>tx_broadcast_done\<close>: the same frame sent with \<^verbatim>\<open>MPIPE_Broadcast\<close>, up to the state
  \<^verbatim>\<open>MPIPE_Tx_Done\<close>.
\<close>

definition valid_ack :: "ot_u8 list" where
  "valid_ack = [0xDD, 0, 0, 2, 0, 0, 0, 0, 0, 0xDF]"

definition corrupt_ack :: "ot_u8 list" where
  "corrupt_ack = [0xDD, 0, 0, 2, 0, 0, 0, 0, 0, 0xDE]"

definition tx_sent :: machine where
  "tx_sent = run parity_crc [DMA_IRQ [], I2C_IRQ, I2C_IRQ]
     (snd (mpipe_txndef_arm parity_crc 0x200 MPIPE_Low machine_AB))"

definition tx_ack_arrived :: machine where
  "tx_ack_arrived = dma_complete valid_ack tx_sent"

definition tx_completed :: machine where
  "tx_completed = irq_step parity_crc (DMA_IRQ valid_ack) tx_sent"

definition tx_broadcast_done :: machine where
  "tx_broadcast_done = run parity_crc [DMA_IRQ [], I2C_IRQ]
     (snd (mpipe_txndef_arm parity_crc 0x200 MPIPE_Broadcast machine_AB))"

text \<open>
  A receiver whose own sequence counter stands at 8. \<open>bad_frame\<close> is a frame without
  payload, with sequence 7 and a wrong check value. \<open>rx_armed\<close>: a receive into
  address \<open>0x200\<close> with priority \<^verbatim>\<open>MPIPE_Low\<close> has been called. \<open>rx_prefix\<close>: the first
  ten bytes have arrived and their interrupt is pending. \<open>rx_payload\<close>: that interrupt
  has been served and the remainder has arrived. \<open>rx_nacked\<close>: the acknowledgment has
  been built and sent, up to the state \<^verbatim>\<open>MPIPE_TxAck_Done\<close>.
\<close>

definition bad_frame :: "ot_u8 list" where
  "bad_frame = [0xDD, 0, 0, 2, 0, 0, 0, 7, 0x12, 0x34]"

definition rx_armed :: machine where
  "rx_armed = snd (mpipe_rxndef 0x200 False MPIPE_Low (boot_machine\<lparr>sequence := 8\<rparr>))"

definition rx_prefix :: machine where
  "rx_prefix = dma_complete bad_frame rx_armed"

definition rx_payload :: machine where
  "rx_payload =
     dma_complete (drop 6 bad_frame) (irq_step parity_crc (DMA_IRQ bad_frame) rx_armed)"

definition rx_nacked :: machine where
  "rx_nacked = run parity_crc [DMA_IRQ [], I2C_IRQ] (mpipe_isr parity_crc rx_payload)"

section \<open>Blocks of the store\<close>

lemma length_block: "length (block m p k) = nat k"
  by (simp add: block_def)

lemma block_nth: "i < nat k \<Longrightarrow> block m p k ! i = m (p + int i)"
  by (simp add: block_def)

text \<open>Unrolling a block of known length, for evaluation.\<close>

lemma block_rec:
  "block m p n = (if n \<le> 0 then [] else m p # block m (p + 1) (n - 1))"
proof (cases "n \<le> 0")
  case True
  then show ?thesis by (simp add: block_def)
next
  case False
  then have n: "nat n = Suc (nat (n - 1))" by simp
  have "[0..<Suc (nat (n - 1))] = 0 # map Suc [0..<nat (n - 1)]"
    by (simp only: map_Suc_upt upt_conv_Cons [of 0] zero_less_Suc)
  then show ?thesis
    using False by (simp add: block_def n o_def add.assoc del: upt_Suc)
qed

lemma block_seq_written:
  assumes "0 \<le> n"
  shows "block (m(p + n := a, p + (n + 1) := b)) p (n + 2) = block m p n @ [a, b]"
proof -
  have "nat (n + 2) = Suc (Suc (nat n))"
    using assms by simp
  then show ?thesis
    using assms by (auto simp: block_def)
qed

lemma block_outside_store_block:
  "p + n \<le> a \<or> a + int (length bs) \<le> p \<Longrightarrow> block (store_block a bs m) p n = block m p n"
  by (auto simp: block_def store_block_def)

lemma store_block_at:
  "0 \<le> k \<Longrightarrow> k < int (length bs) \<Longrightarrow> store_block a bs m (a + k) = bs ! nat k"
  by (simp add: store_block_def)

lemma four_pokes:
  "m(a := b0, a + 1 := b1, a + 2 := b2, a + 3 := b3) = store_block a [b0, b1, b2, b3] m"
proof
  fix x
  consider "x < a" | "x = a" | "x = a + 1" | "x = a + 2" | "x = a + 3" | "a + 4 \<le> x"
    by linarith
  then show "(m(a := b0, a + 1 := b1, a + 2 := b2, a + 3 := b3)) x
      = store_block a [b0, b1, b2, b3] m x"
    by cases (simp_all add: store_block_def)
qed

lemma five_pokes:
  "m(a := b0, a + 1 := b1, a + 2 := b2, a + 3 := b3, a + 4 := b4)
    = store_block a [b0, b1, b2, b3, b4] m"
proof
  fix x
  consider "x < a" | "x = a" | "x = a + 1" | "x = a + 2" | "x = a + 3" | "x = a + 4"
    | "a + 5 \<le> x"
    by linarith
  then show "(m(a := b0, a + 1 := b1, a + 2 := b2, a + 3 := b3, a + 4 := b4)) x
      = store_block a [b0, b1, b2, b3, b4] m x"
    by cases (simp_all add: store_block_def)
qed

lemma store_block_append:
  "store_block (a + int (length xs)) ys (store_block a xs m) = store_block a (xs @ ys) m"
proof
  fix x
  consider "x < a" | "a \<le> x" "x < a + int (length xs)"
    | "a + int (length xs) \<le> x" "x < a + int (length xs) + int (length ys)"
    | "a + int (length xs) + int (length ys) \<le> x"
    by linarith
  then show "store_block (a + int (length xs)) ys (store_block a xs m) x
      = store_block a (xs @ ys) m x"
  proof cases
    case 1
    then show ?thesis by (simp add: store_block_def)
  next
    case 2
    then have "nat (x - a) < length xs" by linarith
    with 2 show ?thesis by (simp add: store_block_def nth_append)
  next
    case 3
    then have "\<not> nat (x - a) < length xs"
      and "nat (x - (a + int (length xs))) = nat (x - a) - length xs"
      by linarith+
    with 3 show ?thesis by (simp add: store_block_def nth_append)
  next
    case 4
    then show ?thesis by (simp add: store_block_def)
  qed
qed

lemma store_block_snoc:
  "(store_block a xs m)(a + int (length xs) := v) = store_block a (xs @ [v]) m"
proof -
  have "(store_block a xs m)(a + int (length xs) := v)
      = store_block (a + int (length xs)) [v] (store_block a xs m)"
    by (auto simp: store_block_def fun_eq_iff)
  then show ?thesis by (simp only: store_block_append)
qed

lemma block_store_block_append:
  assumes "0 \<le> n"
  shows "block (store_block (p + n) bs m) p (n + int (length bs)) = block m p n @ bs"
proof (rule nth_equalityI)
  show "length (block (store_block (p + n) bs m) p (n + int (length bs)))
      = length (block m p n @ bs)"
    using assms by (simp add: length_block nat_add_distrib)
next
  fix i
  assume "i < length (block (store_block (p + n) bs m) p (n + int (length bs)))"
  then have i: "i < nat (n + int (length bs))"
    by (simp add: length_block)
  then have lhs: "block (store_block (p + n) bs m) p (n + int (length bs)) ! i
      = store_block (p + n) bs m (p + int i)"
    by (rule block_nth)
  show "block (store_block (p + n) bs m) p (n + int (length bs)) ! i = (block m p n @ bs) ! i"
  proof (cases "i < nat n")
    case True
    then have "int i < n" by linarith
    then have "store_block (p + n) bs m (p + int i) = m (p + int i)"
      by (simp add: store_block_def)
    with True lhs show ?thesis
      by (simp add: nth_append length_block block_nth)
  next
    case False
    then have ge: "n \<le> int i" by linarith
    have lt: "int i < n + int (length bs)" using i by linarith
    have idx: "nat (int i - n) = i - nat n" using assms ge by linarith
    have "store_block (p + n) bs m (p + int i) = bs ! (i - nat n)"
      using ge lt by (simp add: store_block_def idx)
    with False lhs show ?thesis
      by (simp add: nth_append length_block)
  qed
qed

section \<open>Twobytes\<close>

lemma upper_twobytes: "ubyte_UPPER (twobytes hi lo) = hi"
  unfolding ubyte_UPPER_def twobytes_def
  by (rule bit_word_eqI) (auto simp: bit_simps dest: bit_imp_le_length)

lemma lower_twobytes: "ubyte_LOWER (twobytes hi lo) = lo"
  unfolding ubyte_LOWER_def twobytes_def
  by (rule bit_word_eqI) (auto simp: bit_simps dest: bit_imp_le_length)

text \<open>Assigning \<^verbatim>\<open>ubyte[UPPER]\<close> and then \<^verbatim>\<open>ubyte[LOWER]\<close> replaces the whole value.\<close>

lemma set_LOWER_set_UPPER: "set_ubyte_LOWER lo (set_ubyte_UPPER hi w) = twobytes hi lo"
proof -
  have m1: "(0xFF :: 16 word) = mask 8" by (simp add: mask_eq_exp_minus_1)
  have m2: "(0xFF00 :: 16 word) = push_bit 8 (mask 8)"
    by (simp add: mask_eq_exp_minus_1 push_bit_eq_mult)
  show ?thesis
    unfolding set_ubyte_LOWER_def set_ubyte_UPPER_def twobytes_def m1 m2
    by (rule bit_word_eqI) (auto simp: bit_simps dest: bit_imp_le_length)
qed

lemma length_spec_footer: "length (spec_footer crc body sq) = 4"
  by (simp add: spec_footer_def Let_def)

section \<open>Sixteen-bit values, facts\<close>

lemma reg16_id: "0 \<le> x \<Longrightarrow> x < 65536 \<Longrightarrow> reg16 x = x"
  by (simp add: reg16_def)


text \<open>The two reductions are those of the 16-bit machine word.\<close>

lemma reg16_word: "reg16 x = uint (word_of_int x :: 16 word)"
  by (simp add: reg16_def uint_word_of_int take_bit_eq_mod)

lemma ot_int_word: "ot_int x = sint (word_of_int x :: 16 word)"
  by (simp add: ot_int_def sint_uint uint_word_of_int signed_take_bit_eq_take_bit_shift
      take_bit_eq_mod mod_simps)

lemma uint_byte_bounds: "0 \<le> uint (b :: ot_u8)" "uint (b :: ot_u8) < 256"
  using uint_lt2p [of b] by simp_all

lemma reg16_frame_length [simp]:
  "reg16 (uint (b :: ot_u8) + 10) = uint b + 10" "reg16 (uint (b :: ot_u8) + 4) = uint b + 4"
  using uint_byte_bounds [of b] by (simp_all add: reg16_id)

section \<open>The two calls, closed form\<close>

text \<open>
  What \<^verbatim>\<open>mpipe_txndef\<close> does once the busy check lets the call through: the footer is
  written behind header and payload, the DMA channel is set to send the whole frame,
  and only a data kind touches the bookkeeping.
\<close>

lemma txndef_arm_admitted:
  assumes "data_priority = MPIPE_Ack \<or> state s = MPIPE_Idle"
  shows "mpipe_txndef_arm crc data data_priority s =
    (let len = uint (mem s (data + 2)) + 6;
         s1 = (if data_priority \<noteq> MPIPE_Ack
               then s\<lparr>priority := data_priority, pktbuf := data, pktlen := len\<rparr>
               else s)
     in (Inr (len + 4),
         s1\<lparr>state := MPIPE_Tx_Wait,
            mem := store_block (data + len)
                     (spec_footer crc (block (mem s) data len) (sequence s)) (mem s),
            dma_dir := DMA_Tx, dma_addr := data, dma_sz := len + 4, dma_en := True,
            i2c_open := True\<rparr>))"
proof -
  have len: "0 \<le> uint (mem s (data + 2)) + 6" by simp
  show ?thesis
    using assms block_seq_written [OF len, of "mem s" data]
    by (auto simp: mpipe_txndef_arm_def Let_def poke_def MPIPE_DMAEN_OFF_def
        MPIPE_DMA_TXCONFIG_def UART_OPEN_def spec_footer_def four_pokes [symmetric] add.assoc)
qed

lemma txndef_arm_busy:
  "data_priority \<noteq> MPIPE_Ack \<Longrightarrow> state s \<noteq> MPIPE_Idle
    \<Longrightarrow> mpipe_txndef_arm crc data data_priority s = (Inl Busy, s)"
  by (simp add: mpipe_txndef_arm_def)

lemma rxndef_admitted:
  assumes "data_priority = MPIPE_Ack \<or> state s = MPIPE_Idle"
  shows "mpipe_rxndef data blocking data_priority s =
    (let s1 = (if data_priority \<noteq> MPIPE_Ack
               then s\<lparr>priority := data_priority, pktbuf := data, pktlen := 6\<rparr>
               else s)
     in (Inr 0, s1\<lparr>state := MPIPE_Idle, dma_dir := DMA_Rx, dma_addr := data, dma_sz := 10,
                   dma_en := True, i2c_open := True\<rparr>))"
  using assms
  by (auto simp: mpipe_rxndef_def Let_def MPIPE_DMAEN_OFF_def MPIPE_DMA_RXCONFIG_def I2C_OPEN_def
      reg16_def)

lemma rxndef_busy:
  "data_priority \<noteq> MPIPE_Ack \<Longrightarrow> state s \<noteq> MPIPE_Idle
    \<Longrightarrow> mpipe_rxndef data blocking data_priority s = (Inl Busy, s)"
  by (simp add: mpipe_rxndef_def)

lemma txndef_arm_sequence: "sequence (snd (mpipe_txndef_arm crc data p s)) = sequence s"
proof (cases "p = MPIPE_Ack \<or> state s = MPIPE_Idle")
  case True
  then show ?thesis by (simp add: txndef_arm_admitted Let_def)
next
  case False
  then show ?thesis by (simp add: txndef_arm_busy)
qed

lemma rxndef_sequence: "sequence (snd (mpipe_rxndef data b p s)) = sequence s"
proof (cases "p = MPIPE_Ack \<or> state s = MPIPE_Idle")
  case True
  then show ?thesis by (simp add: rxndef_admitted Let_def)
next
  case False
  then show ?thesis by (simp add: rxndef_busy)
qed

lemma txndef_arm_priority:
  "priority (snd (mpipe_txndef_arm crc data p s)) =
     (if p \<noteq> MPIPE_Ack \<and> state s = MPIPE_Idle then p else priority s)"
proof (cases "p = MPIPE_Ack \<or> state s = MPIPE_Idle")
  case True
  then show ?thesis by (auto simp: txndef_arm_admitted Let_def)
next
  case False
  then show ?thesis by (simp add: txndef_arm_busy)
qed

lemma rxndef_priority:
  "priority (snd (mpipe_rxndef data b p s)) =
     (if p \<noteq> MPIPE_Ack \<and> state s = MPIPE_Idle then p else priority s)"
proof (cases "p = MPIPE_Ack \<or> state s = MPIPE_Idle")
  case True
  then show ?thesis by (auto simp: rxndef_admitted Let_def)
next
  case False
  then show ?thesis by (simp add: rxndef_busy)
qed

section \<open>The cases of the dispatch, closed form\<close>

lemma sub_txdone_sequence: "sequence (sub_txdone s) = sequence s + 1"
  by (simp add: sub_txdone_def Let_def UART_CLOSE_def call_sig_def)

lemma sub_rxdone_sequence: "sequence (sub_rxdone s) = sequence s"
  by (simp add: sub_rxdone_def Let_def UART_CLOSE_def call_sig_def)

lemma sub_done_priority:
  "priority (sub_rxdone s) = MPIPE_Low" "priority (sub_txdone s) = MPIPE_Low"
  by (simp_all add: sub_rxdone_def sub_txdone_def Let_def UART_CLOSE_def call_sig_def)

lemma isr_rxheader_sequence: "sequence (isr_rxheader s) = sequence s"
  by (simp add: isr_rxheader_def Let_def MPIPE_DMA_RXCONFIG_def)

text \<open>
  \<^verbatim>\<open>case MPIPE_RxHeader\<close> in closed form, and the two effects of the 16-bit width: from a
  pending length of 0 the size register receives \<open>4 - 6\<close>, which is 65534, and a pending
  length of 32767 wraps.
\<close>

lemma isr_rxheader_closed:
  "isr_rxheader s =
     (let len = ot_int (pktlen s + (uint (mem s (pktbuf s + 2)) + 4))
      in s\<lparr>state := MPIPE_RxPayload, pktlen := len,
           dma_dir := DMA_Rx, dma_addr := pktbuf s + 6, dma_sz := reg16 (len - 6),
           dma_en := True\<rparr>)"
  by (simp add: isr_rxheader_def Let_def MPIPE_DMA_RXCONFIG_def mpipe_footerbytes_def)

lemma isr_rxheader_sixteen_bit:
  "pktlen (isr_rxheader boot_machine) = 4"
  "dma_sz (isr_rxheader boot_machine) = 65534"
  "pktlen (isr_rxheader (boot_machine\<lparr>pktlen := 32767\<rparr>)) = - 32765"
  by (simp_all add: isr_rxheader_closed Let_def boot_machine_def ot_int_def reg16_def)

lemma isr_rxpayload_broadcast:
  "priority s = MPIPE_Broadcast \<Longrightarrow> isr_rxpayload crc s = sub_rxdone s"
  by (simp add: isr_rxpayload_def)

text \<open>
  \<^verbatim>\<open>case MPIPE_RxPayload\<close> without broadcast: the sequence is replaced by the two bytes
  at \<open>pktlen - 4\<close> and \<open>pktlen - 3\<close> of the pending buffer, and the ten bytes of the
  acknowledgment buffer become header, status, that sequence and the checksum of those.
\<close>

lemma isr_rxpayload_ack:
  assumes "priority s \<noteq> MPIPE_Broadcast"
  shows "isr_rxpayload crc s =
    (let hi = mem s (pktbuf s + (pktlen s - 4));
         lo = mem s (pktbuf s + (pktlen s - 3));
         hdr = [0xDD, 0, 0, 2, 0, ack_status crc s]
     in s\<lparr>sequence := twobytes hi lo,
          state := MPIPE_TxAck_Wait,
          mem := store_block (ackbuf s) (hdr @ spec_footer crc hdr (twobytes hi lo)) (mem s),
          dma_dir := DMA_Tx, dma_addr := ackbuf s, dma_sz := 10, dma_en := True,
          i2c_open := True\<rparr>)"
proof -
  have a: "pktbuf s + (pktlen s - 4) + 1 = pktbuf s + (pktlen s - 3)" by simp
  have s6: "(store_block (ackbuf s) [0xDD, 0, 0, 2, 0] (mem s))(ackbuf s + 5 := v)
      = store_block (ackbuf s) [0xDD, 0, 0, 2, 0, v] (mem s)" for v
    using store_block_snoc [of "ackbuf s" "[0xDD, 0, 0, 2, 0]" "mem s" v] by simp
  have s10: "store_block (ackbuf s + 6) ys (store_block (ackbuf s) [0xDD, 0, 0, 2, 0, v] (mem s))
      = store_block (ackbuf s) ([0xDD, 0, 0, 2, 0, v] @ ys) (mem s)" for v ys
    using store_block_append [of "ackbuf s" "[0xDD, 0, 0, 2, 0, v]" ys "mem s"] by simp
  have b6: "block (store_block (ackbuf s) [0xDD, 0, 0, 2, 0, v] (mem s)) (ackbuf s) 6
      = [0xDD, 0, 0, 2, 0, v]" for v
    using block_store_block_append [of 0 "ackbuf s" "[0xDD, 0, 0, 2, 0, v]" "mem s"]
    by (simp add: block_def)
  have b2: "store_block (ackbuf s) [0xDD, 0, 0, 2, 0, v] (mem s) (ackbuf s + 2) = 0" for v
    by (simp add: store_block_def)
  show ?thesis
    using assms
    by (simp add: isr_rxpayload_def Let_def poke_def mpipe_footerbytes_def a
        txndef_arm_admitted set_LOWER_set_UPPER five_pokes ack_status_def s6 s10 b6 b2
        add.assoc)
qed

lemma mpipe_isr_rxpayload:
  "state s = MPIPE_RxPayload \<Longrightarrow> mpipe_isr crc s = isr_rxpayload crc s"
  by (simp add: mpipe_isr_def)

lemma mpipe_isr_rxpayload_ack:
  assumes "state s = MPIPE_RxPayload" and "priority s \<noteq> MPIPE_Broadcast"
  shows "mpipe_isr crc s =
    s\<lparr>sequence := twobytes (mem s (pktbuf s + (pktlen s - 4))) (mem s (pktbuf s + (pktlen s - 3))),
      state := MPIPE_TxAck_Wait,
      mem := store_block (ackbuf s)
               (0xDD # 0 # 0 # 2 # 0 # ack_status crc s #
                spec_footer crc [0xDD, 0, 0, 2, 0, ack_status crc s]
                  (twobytes (mem s (pktbuf s + (pktlen s - 4)))
                            (mem s (pktbuf s + (pktlen s - 3)))))
               (mem s),
      dma_dir := DMA_Tx, dma_addr := ackbuf s, dma_sz := 10, dma_en := True, i2c_open := True\<rparr>"
  using assms by (simp add: mpipe_isr_rxpayload isr_rxpayload_ack Let_def)

lemma ack_frame_bytes:
  fixes st :: ot_u8 and a :: addr and crc :: crc_fn and hdr :: "ot_u8 list" and sq :: ot_u16
    and m0 :: store
  defines "m \<equiv> store_block a (0xDD # 0 # 0 # 2 # 0 # st # spec_footer crc hdr sq) m0"
  shows "m (a + 5) = st" and "m (a + 6) = ubyte_UPPER sq" and "m (a + 7) = ubyte_LOWER sq"
    and "block m a 6 = [0xDD, 0, 0, 2, 0, st]"
proof -
  have at: "m (a + k) = (0xDD # 0 # 0 # 2 # 0 # st # spec_footer crc hdr sq) ! nat k"
    if "0 \<le> k" "k < 10" for k
    unfolding m_def using that by (intro store_block_at) (simp_all add: length_spec_footer)
  show "m (a + 5) = st" using at [of 5] by simp
  show "m (a + 6) = ubyte_UPPER sq" using at [of 6] by (simp add: spec_footer_def Let_def)
  show "m (a + 7) = ubyte_LOWER sq" using at [of 7] by (simp add: spec_footer_def Let_def)
  show "block m a 6 = [0xDD, 0, 0, 2, 0, st]"
    using at [of 0] at [of 1] at [of 2] at [of 3] at [of 4] at [of 5]
    by (simp add: block_rec add.assoc)
qed

lemma ack_status_disjoint:
  assumes "pktbuf s + pktlen s \<le> ackbuf s \<or> ackbuf s + 10 \<le> pktbuf s"
  shows "ack_status crc s = (if crc (block (mem s) (pktbuf s) (pktlen s)) \<noteq> 0 then 0x7F else 0)"
proof -
  have "block (store_block (ackbuf s) [0xDD, 0, 0, 2, 0] (mem s)) (pktbuf s) (pktlen s)
      = block (mem s) (pktbuf s) (pktlen s)"
    using assms by (intro block_outside_store_block) auto
  then show ?thesis by (simp add: ack_status_def)
qed

lemma isr_rxpayload_sequence:
  "sequence (isr_rxpayload crc s) =
     (if priority s \<noteq> MPIPE_Broadcast
      then twobytes (mem s (pktbuf s + (pktlen s - 4))) (mem s (pktbuf s + (pktlen s - 3)))
      else sequence s)"
  by (simp add: isr_rxpayload_ack isr_rxpayload_broadcast sub_rxdone_sequence Let_def)

text \<open>The sequence after a dispatch, in every state.\<close>

lemma mpipe_isr_sequence:
  "sequence (mpipe_isr crc s) =
     (if state s = MPIPE_RxPayload \<and> priority s \<noteq> MPIPE_Broadcast
      then twobytes (mem s (pktbuf s + (pktlen s - 4))) (mem s (pktbuf s + (pktlen s - 3)))
      else if state s = MPIPE_Tx_Done \<and> priority s = MPIPE_Broadcast
              \<or> state s = MPIPE_RxAck \<and> crc (block (mem s) (ackbuf s) 10) = 0
      then sequence s + 1
      else sequence s)"
  by (cases "state s")
    (simp_all add: mpipe_isr_def isr_rxheader_sequence call_sig_def isr_rxpayload_sequence
      sub_rxdone_sequence sub_txdone_sequence isr_txack_done_def Let_def
      isr_tx_done_def isr_rxack_def rxndef_sequence txndef_arm_sequence)

text \<open>
  The two places where the dispatch calls \<^verbatim>\<open>mpipe_txndef\<close> or \<^verbatim>\<open>mpipe_rxndef\<close> with
  \<^verbatim>\<open>mpipe.priority\<close> as the kind: the state is not \<^verbatim>\<open>MPIPE_Idle\<close> there, so unless the
  priority is \<^verbatim>\<open>MPIPE_Ack\<close> the call returns at its busy check.
\<close>

lemma rxack_corrupt_blocked:
  assumes "state s = MPIPE_RxAck" and "priority s \<noteq> MPIPE_Ack"
    and "crc (block (mem s) (ackbuf s) 10) \<noteq> 0"
  shows "mpipe_isr crc s = s"
  using assms by (simp add: mpipe_isr_def isr_rxack_def txndef_arm_busy)

lemma txack_done_nack_blocked:
  assumes "state s = MPIPE_TxAck_Done" and "priority s \<noteq> MPIPE_Ack"
    and "mem s (ackbuf s + 5) \<noteq> 0"
  shows "mpipe_isr crc s = s\<lparr>i2c_txie := False, state := MPIPE_RxHeader\<rparr>"
  using assms by (simp add: mpipe_isr_def isr_txack_done_def rxndef_busy Let_def)

text \<open>
  The priority field never holds \<^verbatim>\<open>MPIPE_Ack\<close>: \<^verbatim>\<open>mpipe_init\<close> sets \<^verbatim>\<open>MPIPE_Low\<close>, and no
  operation stores \<^verbatim>\<open>MPIPE_Ack\<close> in it.
\<close>

lemma dma_complete_fields:
  "state (dma_complete bs s) = state s" "priority (dma_complete bs s) = priority s"
  "ackbuf (dma_complete bs s) = ackbuf s" "pktbuf (dma_complete bs s) = pktbuf s"
  "pktlen (dma_complete bs s) = pktlen s" "sequence (dma_complete bs s) = sequence s"
  "dma_en (dma_complete bs s) = False" "dma_dir (dma_complete bs s) = dma_dir s"
  by (simp_all add: dma_complete_def)

lemma isr_rxpayload_priority:
  "priority s \<noteq> MPIPE_Ack \<Longrightarrow> priority (isr_rxpayload crc s) \<noteq> MPIPE_Ack"
  by (cases "priority s = MPIPE_Broadcast")
    (simp_all add: isr_rxpayload_broadcast isr_rxpayload_ack sub_done_priority Let_def)

lemma mpipe_isr_priority:
  assumes "priority s \<noteq> MPIPE_Ack"
  shows "priority (mpipe_isr crc s) \<noteq> MPIPE_Ack"
  using assms
  by (cases "state s")
    (simp_all add: mpipe_isr_def isr_rxheader_def call_sig_def MPIPE_DMA_RXCONFIG_def Let_def
      isr_rxpayload_priority isr_txack_done_def isr_tx_done_def isr_rxack_def
      rxndef_priority txndef_arm_priority sub_done_priority)

lemma priority_never_ack:
  assumes "priority s \<noteq> MPIPE_Ack"
  shows "priority (irq_step crc e s) \<noteq> MPIPE_Ack"
    and "priority (snd (mpipe_txndef_arm crc data p s)) \<noteq> MPIPE_Ack"
    and "priority (snd (mpipe_rxndef data b p s)) \<noteq> MPIPE_Ack"
    and "priority (snd (mpipe_init s')) \<noteq> MPIPE_Ack"
  using assms
  by (simp_all add: irq_step_def mpipe_dma_isr_def mpipe_uart_isr_def mpipe_isr_priority
      dma_complete_fields txndef_arm_priority rxndef_priority mpipe_init_def
      sub_uart_portsetup_def split: irq.split)

section \<open>The worked inputs, evaluated\<close>

lemmas step_defs =
  run_def irq_step_def mpipe_dma_isr_def mpipe_uart_isr_def mpipe_isr_def dma_complete_def
  isr_rxheader_def isr_txack_done_def isr_tx_done_def isr_rxack_def
  mpipe_rxndef_def sub_rxdone_def sub_txdone_def call_sig_def state_incr_def
  mpipe_footerbytes_def
  UART_CLOSE_def UART_OPEN_def I2C_OPEN_def MPIPE_DMAEN_OFF_def MPIPE_DMA_RXCONFIG_def
  MPIPE_DMA_TXCONFIG_def ot_int_def reg16_def

lemma parity_acks: "parity_crc valid_ack = 0" "parity_crc corrupt_ack \<noteq> 0"
  by (simp_all add: parity_crc_def valid_ack_def corrupt_ack_def)

lemma bad_frame_crc: "parity_crc bad_frame = 0xFE"
  by (simp add: parity_crc_def bad_frame_def)

lemma machine_AB_facts:
  "state machine_AB = MPIPE_Idle" "sequence machine_AB = 0" "mem machine_AB 514 = 2"
  "block (mem machine_AB) 0x200 8 = frame_AB"
  by (simp_all add: machine_AB_def boot_machine_def store_block_def frame_AB_def block_rec)

lemma footer_AB: "spec_footer parity_crc frame_AB 0 = [0, 0, 0, 0xDE]"
  by (simp add: spec_footer_def parity_crc_def frame_AB_def ubyte_UPPER_def ubyte_LOWER_def
      Let_def drop_bit_eq_div)

lemma tx_armed_eq:
  "snd (mpipe_txndef_arm parity_crc 0x200 MPIPE_Low machine_AB) =
     machine_AB\<lparr>state := MPIPE_Tx_Wait, pktbuf := 0x200, pktlen := 8,
       mem := store_block 520 [0, 0, 0, 0xDE] (mem machine_AB),
       dma_dir := DMA_Tx, dma_addr := 0x200, dma_sz := 12, dma_en := True, i2c_open := True\<rparr>"
proof -
  have idle: "MPIPE_Low = MPIPE_Ack \<or> state machine_AB = MPIPE_Idle"
    by (simp add: machine_AB_facts)
  show ?thesis
    by (simp add: txndef_arm_admitted [OF idle] Let_def machine_AB_facts footer_AB)
      (simp add: machine_AB_def boot_machine_def)
qed

lemma tx_sent_eq:
  "tx_sent = machine_AB\<lparr>state := MPIPE_RxAck, pktbuf := 0x200, pktlen := 8,
      mem := store_block 520 [0, 0, 0, 0xDE] (mem machine_AB),
      dma_dir := DMA_Rx, dma_addr := 0x1C00, dma_sz := 10, dma_en := True, i2c_open := True\<rparr>"
  by (simp add: tx_sent_def tx_armed_eq) (simp add: machine_AB_def boot_machine_def step_defs)

lemma tx_sent_facts:
  "state tx_sent = MPIPE_RxAck" "priority tx_sent = MPIPE_Low" "ackbuf tx_sent = 0x1C00"
  "pktbuf tx_sent = 0x200" "pktlen tx_sent = 8" "sequence tx_sent = 0"
  "dma_en tx_sent" "dma_dir tx_sent = DMA_Rx" "dma_addr tx_sent = 0x1C00" "dma_sz tx_sent = 10"
  "mem tx_sent 7170 = 0"
  by (simp_all add: tx_sent_eq machine_AB_def boot_machine_def store_block_def frame_AB_def)

lemma ack_arrival:
  "length bs = 10 \<Longrightarrow> block (mem (dma_complete bs tx_sent)) 0x1C00 10 = bs"
  using block_store_block_append [of 0 "0x1C00" bs "mem tx_sent"]
  by (simp add: dma_complete_def tx_sent_facts block_def)

lemma tx_ack_arrived_facts:
  "state tx_ack_arrived = MPIPE_RxAck" "sequence tx_ack_arrived = 0"
  "ackbuf tx_ack_arrived = 0x1C00"
  "parity_crc (block (mem tx_ack_arrived) 0x1C00 10) = 0"
proof -
  have len: "length valid_ack = 10" by (simp add: valid_ack_def)
  show "state tx_ack_arrived = MPIPE_RxAck" "sequence tx_ack_arrived = 0"
    "ackbuf tx_ack_arrived = 0x1C00"
    "parity_crc (block (mem tx_ack_arrived) 0x1C00 10) = 0"
    by (simp_all add: tx_ack_arrived_def dma_complete_fields tx_sent_facts ack_arrival [OF len]
        parity_acks)
qed

lemma tx_broadcast_done_facts:
  "state tx_broadcast_done = MPIPE_Tx_Done" "priority tx_broadcast_done = MPIPE_Broadcast"
  "sequence tx_broadcast_done = 0"
proof -
  have idle: "MPIPE_Broadcast = MPIPE_Ack \<or> state machine_AB = MPIPE_Idle"
    by (simp add: machine_AB_facts)
  have e: "tx_broadcast_done =
      (snd (mpipe_txndef_arm parity_crc 0x200 MPIPE_Broadcast machine_AB))
        \<lparr>dma_en := False, i2c_txie := True, state := MPIPE_Tx_Done\<rparr>"
    by (simp only: tx_broadcast_done_def txndef_arm_admitted [OF idle])
      (simp add: step_defs Let_def)
  show "state tx_broadcast_done = MPIPE_Tx_Done" "priority tx_broadcast_done = MPIPE_Broadcast"
    "sequence tx_broadcast_done = 0"
    by (simp_all add: e txndef_arm_admitted [OF idle] Let_def machine_AB_facts)
qed

lemma tx_completed_facts:
  "state tx_completed = MPIPE_Idle" "sequence tx_completed = 1"
  "priority tx_completed = MPIPE_Low" "sig_log tx_completed = [(sub_signull, 0)]"
proof -
  have h: "state tx_ack_arrived = MPIPE_RxAck"
    "parity_crc (block (mem tx_ack_arrived) (ackbuf tx_ack_arrived) 10) = 0"
    by (simp_all add: tx_ack_arrived_facts)
  have e: "tx_completed = mpipe_isr parity_crc tx_ack_arrived"
    by (simp add: tx_completed_def tx_ack_arrived_def irq_step_def mpipe_dma_isr_def)
  have "mpipe_isr parity_crc tx_ack_arrived = sub_txdone tx_ack_arrived"
    using h by (simp add: mpipe_isr_def isr_rxack_def)
  then show "state tx_completed = MPIPE_Idle" "sequence tx_completed = 1"
    "priority tx_completed = MPIPE_Low" "sig_log tx_completed = [(sub_signull, 0)]"
    by (simp_all add: e sub_txdone_def Let_def UART_CLOSE_def call_sig_def tx_ack_arrived_facts)
      (simp_all add: tx_ack_arrived_def dma_complete_def tx_sent_eq machine_AB_def
        boot_machine_def)
qed

text \<open>
  The wait loop on the worked sender: a blocking send returns once the four interrupts
  of a complete exchange have been served, and never without interrupts.
\<close>

lemma wait_step:
  "state s \<noteq> MPIPE_Idle
    \<Longrightarrow> mpipe_wait crc (e # evs) s = mpipe_wait crc evs (irq_step crc e s)"
  by simp

lemma wait_done:
  "state s = MPIPE_Idle \<Longrightarrow> mpipe_wait crc [] s = Some (s, [])"
  by simp

lemma blocking_send_AB:
  "mpipe_txndef parity_crc [DMA_IRQ [], I2C_IRQ, I2C_IRQ, DMA_IRQ valid_ack] 0x200 True
      MPIPE_Low machine_AB = Some (Inr 12, tx_completed)"
    and "mpipe_txndef parity_crc [] 0x200 True MPIPE_Low machine_AB = None"
proof -
  define a where "a = snd (mpipe_txndef_arm parity_crc 0x200 MPIPE_Low machine_AB)"
  note a = tx_armed_eq [folded a_def]
  have idle: "MPIPE_Low = MPIPE_Ack \<or> state machine_AB = MPIPE_Idle"
    by (simp add: machine_AB_facts)
  have arm: "mpipe_txndef_arm parity_crc 0x200 MPIPE_Low machine_AB = (Inr 12, a)"
    by (simp add: a_def txndef_arm_admitted [OF idle] Let_def machine_AB_facts)
  have s0: "state a = MPIPE_Tx_Wait" by (simp add: a)
  have s1: "state (irq_step parity_crc (DMA_IRQ []) a) = MPIPE_Tx_Wait"
    by (simp add: a step_defs)
  have s2: "state (irq_step parity_crc I2C_IRQ (irq_step parity_crc (DMA_IRQ []) a))
      = MPIPE_Tx_Done"
    by (simp add: a step_defs)
  have s3: "irq_step parity_crc I2C_IRQ (irq_step parity_crc I2C_IRQ
        (irq_step parity_crc (DMA_IRQ []) a)) = tx_sent"
    by (simp add: tx_sent_def run_def a_def)
  have "mpipe_wait parity_crc [DMA_IRQ [], I2C_IRQ, I2C_IRQ, DMA_IRQ valid_ack] a
      = mpipe_wait parity_crc [I2C_IRQ, I2C_IRQ, DMA_IRQ valid_ack]
          (irq_step parity_crc (DMA_IRQ []) a)"
    by (rule wait_step) (simp add: s0)
  also have "\<dots> = mpipe_wait parity_crc [I2C_IRQ, DMA_IRQ valid_ack]
      (irq_step parity_crc I2C_IRQ (irq_step parity_crc (DMA_IRQ []) a))"
    by (rule wait_step) (simp add: s1)
  also have "\<dots> = mpipe_wait parity_crc [DMA_IRQ valid_ack] tx_sent"
    unfolding s3 [symmetric] by (rule wait_step) (simp add: s2)
  also have "\<dots> = mpipe_wait parity_crc [] tx_completed"
    unfolding tx_completed_def by (rule wait_step) (simp add: tx_sent_facts)
  also have "\<dots> = Some (tx_completed, [])"
    by (rule wait_done) (simp add: tx_completed_facts)
  finally have w: "mpipe_wait parity_crc [DMA_IRQ [], I2C_IRQ, I2C_IRQ, DMA_IRQ valid_ack] a
      = Some (tx_completed, [])" .
  show "mpipe_txndef parity_crc [DMA_IRQ [], I2C_IRQ, I2C_IRQ, DMA_IRQ valid_ack] 0x200 True
      MPIPE_Low machine_AB = Some (Inr 12, tx_completed)"
    by (simp add: mpipe_txndef_def arm w del: mpipe_wait.simps)
  show "mpipe_txndef parity_crc [] 0x200 True MPIPE_Low machine_AB = None"
    by (simp add: mpipe_txndef_def arm s0)
qed

lemma rx_armed_eq:
  "rx_armed = boot_machine\<lparr>sequence := 8, pktbuf := 0x200, pktlen := 6,
      dma_dir := DMA_Rx, dma_addr := 0x200, dma_sz := 10, dma_en := True, i2c_open := True\<rparr>"
  by (simp add: rx_armed_def boot_machine_def step_defs)

lemma rx_prefix_facts:
  "state rx_prefix = MPIPE_Idle" "pktlen rx_prefix = 6" "mem rx_prefix 514 = 0"
  "pktbuf rx_prefix = 0x200" "sequence rx_prefix = 8"
  by (simp_all add: rx_prefix_def rx_armed_eq dma_complete_def boot_machine_def
      store_block_def bad_frame_def)

lemma rx_payload_eq:
  "rx_payload = boot_machine\<lparr>sequence := 8, state := MPIPE_RxPayload, pktbuf := 0x200,
      pktlen := 10,
      mem := store_block 0x206 (drop 6 bad_frame) (store_block 0x200 bad_frame (mem boot_machine)),
      dma_dir := DMA_Rx, dma_addr := 0x206, dma_sz := 4, dma_en := False, i2c_open := True,
      sig_log := [(sub_signull, 0)]\<rparr>"
  by (simp add: rx_payload_def rx_armed_eq boot_machine_def step_defs bad_frame_def
      store_block_def)

lemma rx_payload_facts:
  "state rx_payload = MPIPE_RxPayload" "priority rx_payload = MPIPE_Low"
  "pktbuf rx_payload = 0x200" "pktlen rx_payload = 10" "ackbuf rx_payload = 0x1C00"
  "sequence rx_payload = 8"
  by (simp_all add: rx_payload_eq boot_machine_def)

lemma rx_payload_bytes:
  "block (mem rx_payload) 0x200 10 = bad_frame"
  "mem rx_payload 514 = 0" "mem rx_payload 518 = 0" "mem rx_payload 519 = 7"
  by (simp_all add: rx_payload_eq boot_machine_def bad_frame_def store_block_def block_rec)

lemma twobytes_0_7: "twobytes 0 7 = 7"
  by (simp add: twobytes_def)

lemma ack_status_rx_payload: "ack_status parity_crc rx_payload = 0x7F"
proof -
  have "pktbuf rx_payload + pktlen rx_payload \<le> ackbuf rx_payload
       \<or> ackbuf rx_payload + 10 \<le> pktbuf rx_payload"
    by (simp add: rx_payload_facts)
  then show ?thesis
    by (simp add: ack_status_disjoint rx_payload_facts rx_payload_bytes bad_frame_crc)
qed

lemma rx_nacked_facts:
  "state rx_nacked = MPIPE_TxAck_Done" "priority rx_nacked = MPIPE_Low"
  "ackbuf rx_nacked = 0x1C00" "mem rx_nacked (0x1C00 + 5) = 0x7F"
  "pktbuf rx_nacked = 0x200" "pktlen rx_nacked = 10"
  "dma_dir rx_nacked = DMA_Tx" "dma_en rx_nacked = False" "dma_addr rx_nacked = 0x1C00"
  "mem rx_nacked (0x200 + 2) = 0"
proof -
  have h: "state rx_payload = MPIPE_RxPayload" "priority rx_payload \<noteq> MPIPE_Broadcast"
    by (simp_all add: rx_payload_facts)
  have e: "rx_nacked = (mpipe_isr parity_crc rx_payload)
      \<lparr>dma_en := False, i2c_txie := True, state := MPIPE_TxAck_Done\<rparr>"
    by (simp only: rx_nacked_def mpipe_isr_rxpayload_ack [OF h]) (simp add: step_defs)
  show "state rx_nacked = MPIPE_TxAck_Done" "priority rx_nacked = MPIPE_Low"
    "ackbuf rx_nacked = 0x1C00" "pktbuf rx_nacked = 0x200" "pktlen rx_nacked = 10"
    "dma_dir rx_nacked = DMA_Tx" "dma_en rx_nacked = False" "dma_addr rx_nacked = 0x1C00"
    by (simp_all add: e mpipe_isr_rxpayload_ack [OF h] rx_payload_facts)
  show "mem rx_nacked (0x1C00 + 5) = 0x7F"
    using ack_frame_bytes(1) [where a = "0x1C00" and st = "0x7F"]
    by (simp add: e mpipe_isr_rxpayload_ack [OF h] rx_payload_facts ack_status_rx_payload)
  show "mem rx_nacked (0x200 + 2) = 0"
    by (simp add: e mpipe_isr_rxpayload_ack [OF h] rx_payload_facts store_block_def
        rx_payload_bytes length_spec_footer)
qed

section \<open>The sender after a corrupted acknowledgment\<close>

text \<open>
  Claim C1, on the worked sender: the frame \<^verbatim>\<open>AB\<close> has been sent with priority
  \<^verbatim>\<open>MPIPE_Low\<close> and the state is \<^verbatim>\<open>MPIPE_RxAck\<close>; the ten bytes that arrive check to a
  non-zero value. The dispatch calls \<^verbatim>\<open>mpipe_txndef\<close> with the pending buffer and the
  stored priority, and that call returns at its busy check, because the state is not
  \<^verbatim>\<open>MPIPE_Idle\<close>. Serving the interrupt therefore changes nothing: the state stays
  \<^verbatim>\<open>MPIPE_RxAck\<close> and the DMA channel is left as the finished receive left it, not set
  to send.
\<close>

theorem corrupt_ack_retransmit_rejected:
  "state tx_sent = MPIPE_RxAck \<and> priority tx_sent = MPIPE_Low
   \<and> block (mem (dma_complete corrupt_ack tx_sent)) (ackbuf tx_sent) 10 = corrupt_ack
   \<and> parity_crc corrupt_ack \<noteq> 0
   \<and> fst (mpipe_txndef_arm parity_crc (pktbuf tx_sent) (priority tx_sent)
            (dma_complete corrupt_ack tx_sent)) = Inl Busy
   \<and> irq_step parity_crc (DMA_IRQ corrupt_ack) tx_sent = dma_complete corrupt_ack tx_sent
   \<and> state (irq_step parity_crc (DMA_IRQ corrupt_ack) tx_sent) = MPIPE_RxAck
   \<and> \<not> dma_en (irq_step parity_crc (DMA_IRQ corrupt_ack) tx_sent)
   \<and> dma_dir (irq_step parity_crc (DMA_IRQ corrupt_ack) tx_sent) = DMA_Rx"
proof -
  have len: "length corrupt_ack = 10" by (simp add: corrupt_ack_def)
  have h: "state (dma_complete corrupt_ack tx_sent) = MPIPE_RxAck"
    "priority (dma_complete corrupt_ack tx_sent) \<noteq> MPIPE_Ack"
    "parity_crc (block (mem (dma_complete corrupt_ack tx_sent))
        (ackbuf (dma_complete corrupt_ack tx_sent)) 10) \<noteq> 0"
    by (simp_all add: dma_complete_fields tx_sent_facts ack_arrival [OF len] parity_acks)
  show ?thesis
    by (simp add: irq_step_def mpipe_dma_isr_def rxack_corrupt_blocked [where crc = parity_crc, OF h]
        dma_complete_fields tx_sent_facts ack_arrival [OF len] parity_acks txndef_arm_busy)
qed

section \<open>The receiver after sending a NACK\<close>

text \<open>
  Claim C2, on the worked receiver: a frame with a wrong check value has been received
  with priority \<^verbatim>\<open>MPIPE_Low\<close>, the acknowledgment with status \<open>0x7F\<close> has been sent and
  the state is \<^verbatim>\<open>MPIPE_TxAck_Done\<close>. The dispatch calls \<^verbatim>\<open>mpipe_rxndef\<close> with the pending
  buffer and the stored priority, and that call returns at its busy check. The state
  becomes \<^verbatim>\<open>MPIPE_RxHeader\<close>, but no receive is armed: the DMA channel is still the
  finished send, and the pending length is still 10, not 6.
\<close>

theorem nack_rearm_rejected:
  "state rx_nacked = MPIPE_TxAck_Done
   \<and> mem rx_nacked (ackbuf rx_nacked + 5) = 0x7F
   \<and> fst (mpipe_rxndef (pktbuf rx_nacked) False (priority rx_nacked)
            (rx_nacked\<lparr>i2c_txie := False\<rparr>)) = Inl Busy
   \<and> mpipe_isr parity_crc rx_nacked = rx_nacked\<lparr>i2c_txie := False, state := MPIPE_RxHeader\<rparr>
   \<and> state (mpipe_isr parity_crc rx_nacked) = MPIPE_RxHeader
   \<and> \<not> dma_en (mpipe_isr parity_crc rx_nacked)
   \<and> dma_dir (mpipe_isr parity_crc rx_nacked) = DMA_Tx
   \<and> pktlen (mpipe_isr parity_crc rx_nacked) = 10"
proof -
  have h: "state rx_nacked = MPIPE_TxAck_Done" "priority rx_nacked \<noteq> MPIPE_Ack"
    "mem rx_nacked (ackbuf rx_nacked + 5) \<noteq> 0"
    using rx_nacked_facts by simp_all
  show ?thesis
    using rx_nacked_facts
    by (simp add: txack_done_nack_blocked [where crc = parity_crc, OF h] rxndef_busy)
qed

section \<open>Sending\<close>

text \<open>
  Claim C3. A send of a data kind (any priority but \<^verbatim>\<open>MPIPE_Ack\<close>) while the state is
  not \<^verbatim>\<open>MPIPE_Idle\<close> returns the busy result at once, whether blocking or not, and leaves
  the whole machine as it was: state, pending buffer and length, priority, sequence,
  store and peripherals.
\<close>

theorem busy_data_send_rejected:
  assumes "data_priority \<noteq> MPIPE_Ack" and "state s \<noteq> MPIPE_Idle"
  shows "mpipe_txndef crc evs data blocking data_priority s = Some (Inl Busy, s)"
  using assms by (simp add: mpipe_txndef_def mpipe_txndef_arm_def)

theorem busy_data_send_rejected_witness:
  "MPIPE_Low \<noteq> MPIPE_Ack \<and> state tx_sent \<noteq> MPIPE_Idle
   \<and> mpipe_txndef parity_crc [] 0x300 False MPIPE_Low tx_sent = Some (Inl Busy, tx_sent)
   \<and> mpipe_txndef parity_crc [] 0x300 True MPIPE_Low tx_sent = Some (Inl Busy, tx_sent)"
  using busy_data_send_rejected [where data_priority = MPIPE_Low and s = tx_sent
      and crc = parity_crc and evs = "[]" and data = "0x300" and blocking = False]
    busy_data_send_rejected [where data_priority = MPIPE_Low and s = tx_sent
      and crc = parity_crc and evs = "[]" and data = "0x300" and blocking = True]
  by (simp add: tx_sent_facts)

text \<open>
  Claim C4. A send of a data kind while the state is \<^verbatim>\<open>MPIPE_Idle\<close> is accepted. With
  \<open>len\<close> the length of header and payload (6 plus the byte at offset 2): the call
  returns \<open>len + 4\<close>; the pending buffer is the caller's buffer, the pending length is
  \<open>len\<close> and the priority is the kind passed; the four bytes behind header and payload
  become the sequence followed by the checksum of header, payload and sequence, and no
  other byte changes; the DMA channel sends \<open>len + 4\<close> bytes from the buffer; the state
  is \<^verbatim>\<open>MPIPE_Tx_Wait\<close>. A non-blocking call returns in that state; a blocking call enters
  the wait loop in it.
\<close>

theorem idle_data_send_accepted:
  assumes "data_priority \<noteq> MPIPE_Ack" and "state s = MPIPE_Idle"
  shows "let len = uint (mem s (data + 2)) + 6;
             s' = snd (mpipe_txndef_arm crc data data_priority s);
             ftr = spec_footer crc (block (mem s) data len) (sequence s)
         in mpipe_txndef crc evs data False data_priority s = Some (Inr (len + 4), s')
          \<and> mpipe_txndef crc evs data True data_priority s
              = map_option (\<lambda>(t, _). (Inr (len + 4), t)) (mpipe_wait crc evs s')
          \<and> pktbuf s' = data \<and> pktlen s' = len \<and> priority s' = data_priority
          \<and> state s' = MPIPE_Tx_Wait
          \<and> sequence s' = sequence s
          \<and> mem s' = store_block (data + len) ftr (mem s)
          \<and> block (mem s') data (len + 4) = block (mem s) data len @ ftr
          \<and> dma_en s' \<and> dma_dir s' = DMA_Tx \<and> dma_addr s' = data \<and> dma_sz s' = len + 4"
proof -
  have len: "0 \<le> uint (mem s (data + 2)) + 6" by simp
  have adm: "data_priority = MPIPE_Ack \<or> state s = MPIPE_Idle" using assms by simp
  show ?thesis
    using assms block_store_block_append [OF len, of data
        "spec_footer crc (block (mem s) data (uint (mem s (data + 2)) + 6)) (sequence s)" "mem s"]
    by (simp add: mpipe_txndef_def txndef_arm_admitted [OF adm] Let_def length_spec_footer)
qed

theorem idle_data_send_accepted_witness:
  "MPIPE_Low \<noteq> MPIPE_Ack \<and> state machine_AB = MPIPE_Idle
   \<and> map_option fst (mpipe_txndef parity_crc [] 0x200 False MPIPE_Low machine_AB)
       = Some (Inr 12)
   \<and> state (snd (mpipe_txndef_arm parity_crc 0x200 MPIPE_Low machine_AB)) = MPIPE_Tx_Wait
   \<and> pktlen (snd (mpipe_txndef_arm parity_crc 0x200 MPIPE_Low machine_AB)) = 8
   \<and> block (mem (snd (mpipe_txndef_arm parity_crc 0x200 MPIPE_Low machine_AB))) 0x200 12
       = frame_AB @ [0, 0, 0, 0xDE]
   \<and> parity_crc (frame_AB @ [0, 0, 0, 0xDE]) = 0
   \<and> mpipe_txndef parity_crc [DMA_IRQ [], I2C_IRQ, I2C_IRQ, DMA_IRQ valid_ack] 0x200 True
        MPIPE_Low machine_AB = Some (Inr 12, tx_completed)
   \<and> state tx_completed = MPIPE_Idle"
proof -
  have h: "MPIPE_Low \<noteq> MPIPE_Ack" "state machine_AB = MPIPE_Idle"
    by (simp_all add: machine_AB_facts)
  have fin: "block (store_block 520 [0, 0, 0, 222] (mem machine_AB)) 512 12
      = frame_AB @ [0, 0, 0, 222]"
    by (simp add: block_rec store_block_def frame_AB_def machine_AB_def boot_machine_def)
  have chk: "parity_crc (frame_AB @ [0, 0, 0, 0xDE]) = 0"
    by (simp add: parity_crc_def frame_AB_def)
  show ?thesis
    using h chk
      idle_data_send_accepted [OF h, where crc = parity_crc and data = "0x200" and evs = "[]"]
    by (simp add: Let_def machine_AB_facts footer_AB fin blocking_send_AB tx_completed_facts
        del: mpipe_wait.simps)
qed

section \<open>The acknowledgment kind\<close>

text \<open>
  Claim C8. A send or a receive with the kind \<^verbatim>\<open>MPIPE_Ack\<close> passes the busy check in
  every state: the send returns the frame length (6 plus the byte at offset 2 plus 4),
  or enters the wait loop when blocking, and the receive returns 0; neither changes the
  pending buffer, the pending length or the priority. Conversely a call that changes
  one of the three fields has a data kind (and was made in \<^verbatim>\<open>MPIPE_Idle\<close>).
\<close>

theorem ack_kind_exempt:
  "(let s' = snd (mpipe_txndef_arm crc data MPIPE_Ack s);
        n = uint (mem s (data + 2)) + 10
    in mpipe_txndef crc evs data blocking MPIPE_Ack s
         = (if blocking then map_option (\<lambda>(t, _). (Inr n, t)) (mpipe_wait crc evs s')
            else Some (Inr n, s'))
       \<and> pktbuf s' = pktbuf s \<and> pktlen s' = pktlen s \<and> priority s' = priority s)
   \<and> (let r = mpipe_rxndef data blocking MPIPE_Ack s
       in fst r = Inr 0
        \<and> pktbuf (snd r) = pktbuf s \<and> pktlen (snd r) = pktlen s
        \<and> priority (snd r) = priority s)
   \<and> (let s' = snd (mpipe_txndef_arm crc data p s)
       in pktbuf s' \<noteq> pktbuf s \<or> pktlen s' \<noteq> pktlen s \<or> priority s' \<noteq> priority s
          \<longrightarrow> p \<noteq> MPIPE_Ack \<and> state s = MPIPE_Idle)
   \<and> (let s' = snd (mpipe_rxndef data blocking p s)
       in pktbuf s' \<noteq> pktbuf s \<or> pktlen s' \<noteq> pktlen s \<or> priority s' \<noteq> priority s
          \<longrightarrow> p \<noteq> MPIPE_Ack \<and> state s = MPIPE_Idle)"
proof -
  have adm: "MPIPE_Ack = MPIPE_Ack \<or> state s = MPIPE_Idle" by simp
  have c1: "let s' = snd (mpipe_txndef_arm crc data MPIPE_Ack s);
        n = uint (mem s (data + 2)) + 10
    in mpipe_txndef crc evs data blocking MPIPE_Ack s
         = (if blocking then map_option (\<lambda>(t, _). (Inr n, t)) (mpipe_wait crc evs s')
            else Some (Inr n, s'))
       \<and> pktbuf s' = pktbuf s \<and> pktlen s' = pktlen s \<and> priority s' = priority s"
    by (simp add: Let_def mpipe_txndef_def txndef_arm_admitted [OF adm] add.assoc)
  have c2: "let r = mpipe_rxndef data blocking MPIPE_Ack s
       in fst r = Inr 0
        \<and> pktbuf (snd r) = pktbuf s \<and> pktlen (snd r) = pktlen s
        \<and> priority (snd r) = priority s"
    by (simp add: Let_def rxndef_admitted [OF adm])
  have c3: "let s' = snd (mpipe_txndef_arm crc data p s)
       in pktbuf s' \<noteq> pktbuf s \<or> pktlen s' \<noteq> pktlen s \<or> priority s' \<noteq> priority s
          \<longrightarrow> p \<noteq> MPIPE_Ack \<and> state s = MPIPE_Idle"
  proof (cases "p = MPIPE_Ack \<or> state s = MPIPE_Idle")
    case True
    then show ?thesis by (auto simp: txndef_arm_admitted Let_def)
  next
    case False
    then show ?thesis by (simp add: txndef_arm_busy)
  qed
  have c4: "let s' = snd (mpipe_rxndef data blocking p s)
       in pktbuf s' \<noteq> pktbuf s \<or> pktlen s' \<noteq> pktlen s \<or> priority s' \<noteq> priority s
          \<longrightarrow> p \<noteq> MPIPE_Ack \<and> state s = MPIPE_Idle"
  proof (cases "p = MPIPE_Ack \<or> state s = MPIPE_Idle")
    case True
    then show ?thesis by (auto simp: rxndef_admitted Let_def)
  next
    case False
    then show ?thesis by (simp add: rxndef_busy)
  qed
  from c1 c2 c3 c4 show ?thesis by (intro conjI)
qed

theorem ack_kind_exempt_witness:
  "state tx_sent = MPIPE_RxAck
   \<and> map_option fst (mpipe_txndef parity_crc [] 0x1C00 False MPIPE_Ack tx_sent) = Some (Inr 10)
   \<and> pktbuf (snd (mpipe_txndef_arm parity_crc 0x1C00 MPIPE_Ack tx_sent)) = 0x200
   \<and> pktlen (snd (mpipe_txndef_arm parity_crc 0x1C00 MPIPE_Ack tx_sent)) = 8
   \<and> priority (snd (mpipe_txndef_arm parity_crc 0x1C00 MPIPE_Ack tx_sent)) = MPIPE_Low
   \<and> fst (mpipe_rxndef 0x1C00 False MPIPE_Ack tx_sent) = Inr 0
   \<and> pktbuf (snd (mpipe_rxndef 0x1C00 False MPIPE_Ack tx_sent)) = 0x200
   \<and> pktbuf (snd (mpipe_txndef_arm parity_crc 0x200 MPIPE_Low machine_AB)) \<noteq> pktbuf machine_AB
   \<and> pktlen (snd (mpipe_rxndef 0x200 False MPIPE_Low machine_AB)) \<noteq> pktlen machine_AB
   \<and> MPIPE_Low \<noteq> MPIPE_Ack \<and> state machine_AB = MPIPE_Idle"
proof -
  have g: "pktbuf (snd (mpipe_txndef_arm parity_crc 0x200 MPIPE_Low machine_AB))
      \<noteq> pktbuf machine_AB"
    by (simp add: tx_armed_eq) (simp add: machine_AB_def boot_machine_def)
  have g': "pktlen (snd (mpipe_rxndef 0x200 False MPIPE_Low machine_AB)) \<noteq> pktlen machine_AB"
    by (simp add: rxndef_admitted machine_AB_facts Let_def)
      (simp add: machine_AB_def boot_machine_def)
  show ?thesis
    using g g' ack_kind_exempt [where crc = parity_crc and evs = "[]" and data = "0x1C00"
        and blocking = False and s = tx_sent and p = MPIPE_Ack]
      ack_kind_exempt [where crc = parity_crc and evs = "[]" and data = "0x200"
        and blocking = False and s = machine_AB and p = MPIPE_Low]
    by (simp add: Let_def tx_sent_facts)
qed

section \<open>Receiving\<close>



text \<open>
  Claim C5. A dispatch in \<^verbatim>\<open>MPIPE_RxPayload\<close> with a priority other than
  \<^verbatim>\<open>MPIPE_Broadcast\<close>, the pending frame lying outside the acknowledgment buffer: the
  sequence becomes the two bytes at \<open>pktlen - 4\<close> and \<open>pktlen - 3\<close> of the frame; the
  acknowledgment buffer starts with \<open>DD 00 00 02 00\<close> and the status byte, which is 0
  exactly when the checksum of the frame is 0 and \<open>0x7F\<close> otherwise; the DMA channel is
  set to send the ten bytes of the acknowledgment buffer; the state is
  \<^verbatim>\<open>MPIPE_TxAck_Wait\<close>.
\<close>

theorem rxpayload_builds_ack:
  assumes "state s = MPIPE_RxPayload" and "priority s \<noteq> MPIPE_Broadcast"
    and "pktbuf s + pktlen s \<le> ackbuf s \<or> ackbuf s + 10 \<le> pktbuf s"
  shows "let s' = mpipe_isr crc s;
             frame = block (mem s) (pktbuf s) (pktlen s);
             status = mem s' (ackbuf s + 5)
         in sequence s' = twobytes (mem s (pktbuf s + (pktlen s - 4)))
                                   (mem s (pktbuf s + (pktlen s - 3)))
          \<and> (status = 0 \<longleftrightarrow> crc frame = 0)
          \<and> (crc frame \<noteq> 0 \<longrightarrow> status = 0x7F)
          \<and> block (mem s') (ackbuf s) 6 = [0xDD, 0, 0, 2, 0, status]
          \<and> dma_en s' \<and> dma_dir s' = DMA_Tx \<and> dma_addr s' = ackbuf s \<and> dma_sz s' = 10
          \<and> i2c_open s'
          \<and> state s' = MPIPE_TxAck_Wait"
  by (simp add: mpipe_isr_rxpayload_ack [OF assms(1,2)] Let_def ack_frame_bytes
      ack_status_disjoint [OF assms(3)])

theorem rxpayload_builds_ack_witness:
  "state rx_payload = MPIPE_RxPayload \<and> priority rx_payload \<noteq> MPIPE_Broadcast
   \<and> (pktbuf rx_payload + pktlen rx_payload \<le> ackbuf rx_payload
       \<or> ackbuf rx_payload + 10 \<le> pktbuf rx_payload)
   \<and> parity_crc (block (mem rx_payload) 0x200 10) = 0xFE
   \<and> mem (mpipe_isr parity_crc rx_payload) (0x1C00 + 5) = 0x7F
   \<and> sequence (mpipe_isr parity_crc rx_payload) = 7
   \<and> state (mpipe_isr parity_crc rx_payload) = MPIPE_TxAck_Wait"
proof -
  have h: "state rx_payload = MPIPE_RxPayload" "priority rx_payload \<noteq> MPIPE_Broadcast"
    "pktbuf rx_payload + pktlen rx_payload \<le> ackbuf rx_payload
       \<or> ackbuf rx_payload + 10 \<le> pktbuf rx_payload"
    by (simp_all add: rx_payload_facts)
  show ?thesis
    using h rxpayload_builds_ack [OF h, where crc = parity_crc]
    by (simp add: Let_def rx_payload_facts rx_payload_bytes bad_frame_crc twobytes_0_7)
qed

text \<open>
  Claim C10. A dispatch in \<^verbatim>\<open>MPIPE_RxPayload\<close> with a priority other than
  \<^verbatim>\<open>MPIPE_Broadcast\<close>: the two sequence bytes of the received frame (at \<open>pktlen - 4\<close> and
  \<open>pktlen - 3\<close> of the pending buffer) become the session sequence, and the
  acknowledgment that the DMA channel is set to send, the ten bytes of the
  acknowledgment buffer, carries them at offsets 6 and 7.
\<close>

theorem ack_carries_received_sequence:
  assumes "state s = MPIPE_RxPayload" and "priority s \<noteq> MPIPE_Broadcast"
  shows "let s' = mpipe_isr crc s;
             hi = mem s (pktbuf s + (pktlen s - 4));
             lo = mem s (pktbuf s + (pktlen s - 3))
         in ubyte_UPPER (sequence s') = hi \<and> ubyte_LOWER (sequence s') = lo
          \<and> mem s' (ackbuf s + 6) = hi \<and> mem s' (ackbuf s + 7) = lo
          \<and> dma_en s' \<and> dma_dir s' = DMA_Tx \<and> dma_addr s' = ackbuf s \<and> dma_sz s' = 10"
  by (simp add: mpipe_isr_rxpayload_ack [OF assms] Let_def ack_frame_bytes
      upper_twobytes lower_twobytes)

theorem ack_carries_received_sequence_witness:
  "state rx_payload = MPIPE_RxPayload \<and> priority rx_payload \<noteq> MPIPE_Broadcast
   \<and> mem rx_payload (0x200 + 6) = 0 \<and> mem rx_payload (0x200 + 7) = 7
   \<and> mem (mpipe_isr parity_crc rx_payload) (0x1C00 + 6) = 0
   \<and> mem (mpipe_isr parity_crc rx_payload) (0x1C00 + 7) = 7
   \<and> dma_dir (mpipe_isr parity_crc rx_payload) = DMA_Tx
   \<and> dma_addr (mpipe_isr parity_crc rx_payload) = 0x1C00
   \<and> dma_sz (mpipe_isr parity_crc rx_payload) = 10"
proof -
  have h: "state rx_payload = MPIPE_RxPayload" "priority rx_payload \<noteq> MPIPE_Broadcast"
    by (simp_all add: rx_payload_facts)
  show ?thesis
    using h ack_carries_received_sequence [OF h, where crc = parity_crc]
    by (simp add: Let_def rx_payload_facts rx_payload_bytes)
qed

section \<open>The sequence counter\<close>

text \<open>
  The sequence can go down: the worked receiver has sequence 8 when it receives a frame
  whose sequence field is 7, and the dispatch in \<^verbatim>\<open>MPIPE_RxPayload\<close> leaves it at 7.
\<close>

theorem sequence_lowered_counterexample:
  "state rx_payload = MPIPE_RxPayload \<and> sequence rx_payload = 8
   \<and> sequence (mpipe_isr parity_crc rx_payload) = sequence rx_payload - 1
   \<and> unat (sequence (mpipe_isr parity_crc rx_payload)) < unat (sequence rx_payload)"
  by (simp add: mpipe_isr_sequence rx_payload_facts rx_payload_bytes twobytes_0_7)

text \<open>
  Claim C7, amended. \<^verbatim>\<open>sub_txdone\<close> adds 1 to the sequence, modulo \<open>2^16\<close>, and so do
  the two dispatches that end a transmission: \<^verbatim>\<open>MPIPE_Tx_Done\<close> with broadcast priority
  and \<^verbatim>\<open>MPIPE_RxAck\<close> with an acknowledgment that checks to 0. \<^verbatim>\<open>sub_rxdone\<close> leaves the
  sequence as it is. The dispatch in \<^verbatim>\<open>MPIPE_RxPayload\<close> without broadcast replaces the
  sequence by the sequence field of the received frame, whatever its value. Every other
  dispatch leaves the sequence exactly as it was, and so do the state increments of
  \<^verbatim>\<open>mpipe_uart_isr\<close>, the arrival of DMA data, \<^verbatim>\<open>mpipe_txndef\<close> before its wait,
  \<^verbatim>\<open>mpipe_rxndef\<close>, \<^verbatim>\<open>mpipe_init\<close> and the three signal setters.
\<close>

theorem sequence_only_changes:
  "sequence (sub_txdone s) = sequence s + 1
   \<and> unat (sequence (sub_txdone s)) = (unat (sequence s) + 1) mod 2 ^ 16
   \<and> (state s = MPIPE_Tx_Done \<and> priority s = MPIPE_Broadcast
        \<longrightarrow> sequence (mpipe_isr crc s) = sequence s + 1)
   \<and> (state s = MPIPE_RxAck \<and> crc (block (mem s) (ackbuf s) 10) = 0
        \<longrightarrow> sequence (mpipe_isr crc s) = sequence s + 1)
   \<and> sequence (sub_rxdone s) = sequence s
   \<and> (state s = MPIPE_RxPayload \<and> priority s \<noteq> MPIPE_Broadcast
        \<longrightarrow> sequence (mpipe_isr crc s)
            = twobytes (mem s (pktbuf s + (pktlen s - 4))) (mem s (pktbuf s + (pktlen s - 3))))
   \<and> (\<not> (state s = MPIPE_RxPayload \<and> priority s \<noteq> MPIPE_Broadcast)
        \<and> \<not> (state s = MPIPE_Tx_Done \<and> priority s = MPIPE_Broadcast)
        \<and> \<not> (state s = MPIPE_RxAck \<and> crc (block (mem s) (ackbuf s) 10) = 0)
        \<longrightarrow> sequence (mpipe_isr crc s) = sequence s)
   \<and> sequence (mpipe_isr crc s) =
        (if state s = MPIPE_RxPayload \<and> priority s \<noteq> MPIPE_Broadcast
         then twobytes (mem s (pktbuf s + (pktlen s - 4))) (mem s (pktbuf s + (pktlen s - 3)))
         else if state s = MPIPE_Tx_Done \<and> priority s = MPIPE_Broadcast
                 \<or> state s = MPIPE_RxAck \<and> crc (block (mem s) (ackbuf s) 10) = 0
         then sequence s + 1
         else sequence s)
   \<and> (sequence (mpipe_isr crc s) \<noteq> sequence s \<and> sequence (mpipe_isr crc s) \<noteq> sequence s + 1
        \<longrightarrow> state s = MPIPE_RxPayload \<and> priority s \<noteq> MPIPE_Broadcast)
   \<and> (state s = MPIPE_Tx_Wait \<or> state s = MPIPE_TxAck_Wait
        \<longrightarrow> sequence (mpipe_uart_isr crc s) = sequence s)
   \<and> sequence (mpipe_uart_isr crc s) =
        (if state s = MPIPE_Tx_Wait \<or> state s = MPIPE_TxAck_Wait then sequence s
         else sequence (mpipe_isr crc s))
   \<and> sequence (dma_complete wire s) = sequence s
   \<and> sequence (snd (mpipe_txndef_arm crc data p s)) = sequence s
   \<and> sequence (snd (mpipe_rxndef data b p s)) = sequence s
   \<and> sequence (snd (mpipe_init s)) = sequence s
   \<and> sequence (mpipe_setsig_txdone h s) = sequence s
   \<and> sequence (mpipe_setsig_rxdone h s) = sequence s
   \<and> sequence (mpipe_setsig_rxdetect h s) = sequence s"
proof -
  have "unat (sequence s + 1) = (unat (sequence s) + 1) mod 2 ^ 16"
    by (simp add: unat_word_ariths)
  then show ?thesis
    by (simp add: sub_txdone_sequence sub_rxdone_sequence mpipe_isr_sequence
        txndef_arm_sequence rxndef_sequence mpipe_init_def mpipe_uart_isr_def
        sub_uart_portsetup_def dma_complete_fields mpipe_setsig_txdone_def
        mpipe_setsig_rxdone_def mpipe_setsig_rxdetect_def)
qed

theorem sequence_only_changes_witness:
  "state tx_broadcast_done = MPIPE_Tx_Done \<and> priority tx_broadcast_done = MPIPE_Broadcast
   \<and> sequence tx_broadcast_done = 0 \<and> sequence (mpipe_isr parity_crc tx_broadcast_done) = 1
   \<and> state tx_ack_arrived = MPIPE_RxAck
   \<and> parity_crc (block (mem tx_ack_arrived) (ackbuf tx_ack_arrived) 10) = 0
   \<and> sequence tx_ack_arrived = 0 \<and> sequence (mpipe_isr parity_crc tx_ack_arrived) = 1
   \<and> state rx_payload = MPIPE_RxPayload \<and> priority rx_payload \<noteq> MPIPE_Broadcast
   \<and> sequence rx_payload = 8 \<and> sequence (mpipe_isr parity_crc rx_payload) = 7
   \<and> sequence (mpipe_isr parity_crc rx_payload) \<noteq> sequence rx_payload
   \<and> sequence (mpipe_isr parity_crc rx_payload) \<noteq> sequence rx_payload + 1
   \<and> state rx_prefix = MPIPE_Idle \<and> sequence rx_prefix = 8
   \<and> sequence (mpipe_isr parity_crc rx_prefix) = 8
   \<and> state rx_nacked = MPIPE_TxAck_Done
   \<and> sequence (mpipe_isr parity_crc rx_nacked) = sequence rx_nacked
   \<and> sequence (sub_txdone (boot_machine\<lparr>sequence := 0xFFFF\<rparr>)) = 0
   \<and> sequence (sub_rxdone rx_payload) = 8
   \<and> state (snd (mpipe_txndef_arm parity_crc 0x200 MPIPE_Low machine_AB)) = MPIPE_Tx_Wait
   \<and> sequence (mpipe_uart_isr parity_crc
        (snd (mpipe_txndef_arm parity_crc 0x200 MPIPE_Low machine_AB))) = 0"
proof -
  note inst = sequence_only_changes [where crc = parity_crc and data = "0x200"
      and p = MPIPE_Low and b = False and wire = "[]" and h = sub_signull]
  have w1: "sequence (sub_txdone (boot_machine\<lparr>sequence := 0xFFFF\<rparr>)) = 0"
    using inst [where s = "boot_machine\<lparr>sequence := 0xFFFF\<rparr>"] by simp
  have w2: "sequence (mpipe_isr parity_crc tx_broadcast_done) = 1"
    using inst [where s = tx_broadcast_done] by (simp add: tx_broadcast_done_facts)
  have w3: "sequence (mpipe_isr parity_crc tx_ack_arrived) = 1"
    using inst [where s = tx_ack_arrived] by (simp add: tx_ack_arrived_facts)
  have w4: "sequence (mpipe_isr parity_crc rx_payload) = 7"
    using inst [where s = rx_payload]
    by (simp add: rx_payload_facts rx_payload_bytes twobytes_0_7)
  have w5: "sequence (sub_rxdone rx_payload) = 8"
    using inst [where s = rx_payload] by (simp add: rx_payload_facts)
  have w6: "sequence (mpipe_uart_isr parity_crc
        (snd (mpipe_txndef_arm parity_crc 0x200 MPIPE_Low machine_AB))) = 0"
    using inst [where s = "snd (mpipe_txndef_arm parity_crc 0x200 MPIPE_Low machine_AB)"]
    by (simp add: tx_armed_eq machine_AB_facts)
  have w7: "sequence (mpipe_isr parity_crc rx_prefix) = 8"
    using inst [where s = rx_prefix] by (simp add: rx_prefix_facts)
  have w8: "sequence (mpipe_isr parity_crc rx_nacked) = sequence rx_nacked"
    using inst [where s = rx_nacked] by (simp add: rx_nacked_facts)
  show ?thesis
    using w1 w2 w3 w4 w5 w6 w7 w8
    by (simp add: tx_broadcast_done_facts tx_ack_arrived_facts rx_payload_facts tx_armed_eq
        rx_prefix_facts rx_nacked_facts)
qed

section \<open>Initialisation\<close>

text \<open>
  \<^verbatim>\<open>mpipe_init\<close> does not reset the sequence: on the worked sender, after one completed
  transmission the sequence is 1, and it is still 1 after \<^verbatim>\<open>mpipe_init\<close>.
\<close>

theorem mpipe_init_sequence_counterexample:
  "sequence tx_completed = 1 \<and> state tx_completed = MPIPE_Idle
   \<and> sequence (snd (mpipe_init tx_completed)) = 1"
  by (simp add: tx_completed_facts mpipe_init_def sub_uart_portsetup_def)

text \<open>
  Claim C9, amended. \<^verbatim>\<open>mpipe_init\<close> returns 0 and leaves the state \<^verbatim>\<open>MPIPE_Idle\<close>, the
  priority \<^verbatim>\<open>MPIPE_Low\<close> and the three signals \<^verbatim>\<open>sub_signull\<close>; the sequence, the pending
  buffer and length and the store are what they were before the call. So the sequence
  is 0 after the first initialisation of the zero-initialised global, and keeps its
  value through any later one.
\<close>

theorem mpipe_init_establishes:
  "(let s' = snd (mpipe_init s)
    in fst (mpipe_init s) = 0
     \<and> state s' = MPIPE_Idle \<and> priority s' = MPIPE_Low
     \<and> sig_rxdone s' = sub_signull \<and> sig_txdone s' = sub_signull
     \<and> sig_rxdetect s' = sub_signull
     \<and> sequence s' = sequence s
     \<and> pktbuf s' = pktbuf s \<and> pktlen s' = pktlen s \<and> mem s' = mem s)"
  by (simp add: mpipe_init_def Let_def sub_uart_portsetup_def)


end
